theory Spec2Isabelle
  imports Main
begin

section \<open>Paths\<close>

text \<open>
  Every directory the resolvers walk over comes from \<^verbatim>\<open>os.Getwd\<close> or from
  \<^verbatim>\<open>filepath.Abs\<close>, so it is an absolute, cleaned Unix path. Such a path is
  modelled by the list of its components, outermost first; the empty list is the
  filesystem root \<^verbatim>\<open>/\<close>. \<open>render\<close> gives back the Go string, so that
  \<^verbatim>\<open>len(path)\<close> of the source is \<open>length (render p)\<close>.
\<close>

type_synonym path = "string list"

definition render :: "path \<Rightarrow> string" where
  "render p = (if p = [] then ''/'' else concat (map (\<lambda>c. CHR ''/'' # c) p))"

text \<open>\<^verbatim>\<open>filepath.Join(dir, name)\<close> for a single file name.\<close>

definition Join :: "path \<Rightarrow> string \<Rightarrow> path" where
  "Join dir name = dir @ [name]"

text \<open>\<^verbatim>\<open>filepath.Join(dir, "..")\<close>: the parent; the root is its own parent.\<close>

definition parent :: "path \<Rightarrow> path" where
  "parent dir = butlast dir"

text \<open>\<^verbatim>\<open>filepath.Base(dir)\<close>: the last component, \<^verbatim>\<open>/\<close> for the root.\<close>

definition Base :: "path \<Rightarrow> string" where
  "Base dir = (if dir = [] then ''/'' else last dir)"

text \<open>Splitting a Go path string at its separators.\<close>

fun splitPath :: "string \<Rightarrow> string list" where
  "splitPath [] = [[]]"
| "splitPath (c # cs) =
     (if c = CHR ''/'' then [] # splitPath cs
      else (case splitPath cs of [] \<Rightarrow> [[c]] | w # ws \<Rightarrow> (c # w) # ws))"

text \<open>
  Lexical cleaning of a rooted path (\<^verbatim>\<open>filepath.Clean\<close>): empty components and
  \<^verbatim>\<open>.\<close> are dropped, \<^verbatim>\<open>..\<close> removes the component before it and is itself dropped
  at the root.
\<close>

fun resolveComps :: "path \<Rightarrow> string list \<Rightarrow> path" where
  "resolveComps acc [] = acc"
| "resolveComps acc (c # cs) =
     (if c = [] \<or> c = ''.'' then resolveComps acc cs
      else if c = ''..'' then resolveComps (butlast acc) cs
      else resolveComps (acc @ [c]) cs)"

text \<open>The same for a relative path, where a leading \<^verbatim>\<open>..\<close> is kept.\<close>

fun cleanRel :: "string list \<Rightarrow> string list \<Rightarrow> string list" where
  "cleanRel acc [] = acc"
| "cleanRel acc (c # cs) =
     (if c = [] \<or> c = ''.'' then cleanRel acc cs
      else if c = ''..'' then
        (if acc \<noteq> [] \<and> last acc \<noteq> ''..'' then cleanRel (butlast acc) cs
         else cleanRel (acc @ [''..'']) cs)
      else cleanRel (acc @ [c]) cs)"

fun joinSlash :: "string list \<Rightarrow> string" where
  "joinSlash [] = []"
| "joinSlash [c] = c"
| "joinSlash (c # cs) = c @ CHR ''/'' # joinSlash cs"

definition isAbs :: "string \<Rightarrow> bool" where
  "isAbs s = (case s of [] \<Rightarrow> False | c # _ \<Rightarrow> c = CHR ''/'')"

definition Clean :: "string \<Rightarrow> string" where
  "Clean s =
     (if s = [] then ''.''
      else if isAbs s then render (resolveComps [] (splitPath s))
      else (let cs = cleanRel [] (splitPath s) in if cs = [] then ''.'' else joinSlash cs))"

text \<open>
  \<^verbatim>\<open>filepath.Dir(s)\<close>: everything up to the last separator, cleaned;
  \<^verbatim>\<open>.\<close> for the empty string.
\<close>

definition Dir :: "string \<Rightarrow> string" where
  "Dir s = Clean (rev (dropWhile (\<lambda>c. c \<noteq> CHR ''/'') (rev s)))"

text \<open>
  \<^verbatim>\<open>filepath.Abs(s)\<close> as a path: a relative string is joined to the working
  directory, then cleaned. \<open>Abs\<close> is the resulting Go string.
\<close>

definition absPath :: "path \<Rightarrow> string \<Rightarrow> path" where
  "absPath wd s = resolveComps (if isAbs s then [] else wd) (splitPath s)"

definition Abs :: "path \<Rightarrow> string \<Rightarrow> string" where
  "Abs wd s = render (absPath wd s)"

section \<open>The collaborators: context and configuration\<close>

text \<open>
  The \<^verbatim>\<open>Context\<close> interface, as the record of what its methods answer.
  \<^verbatim>\<open>FileExists\<close> is the filesystem's truth about absolute paths;
  \<^verbatim>\<open>Exit\<close> is the end of the process and appears as a result of its own
  (\<open>Exited\<close> below).
\<close>

record Context =
  FileExists :: "path \<Rightarrow> bool"
  GetWorkingDir :: path
  GetPaths :: "string list"
  IsWindows :: bool
  IsExplicit :: bool
  IsQuiet :: bool

text \<open>
  \<^verbatim>\<open>context.FileExists\<close> on a Go string: the empty string names no file, any
  other string is looked up from the working directory.
\<close>

definition FileExistsStr :: "Context \<Rightarrow> string \<Rightarrow> bool" where
  "FileExistsStr ctx s = (s \<noteq> [] \<and> FileExists ctx (absPath (GetWorkingDir ctx) s))"

text \<open>
  Modelled from the spec: the \<^verbatim>\<open>Config\<close> type and its setters
  (\<^verbatim>\<open>setQuiet\<close>, \<^verbatim>\<open>setDebug\<close>, \<^verbatim>\<open>gradle.setReplace\<close>) are declared in a file
  that is not part of the sources at hand. The record holds the four settings the
  Gradle command reads: \<^verbatim>\<open>general.quiet\<close>, \<^verbatim>\<open>general.debug\<close>,
  \<^verbatim>\<open>gradle.replace\<close> and \<^verbatim>\<open>gradle.mappings\<close>, the last one a table from an alias
  token to its one or more replacement tokens. Each setter overrides its setting.
\<close>

record Config =
  general_quiet :: bool
  general_debug :: bool
  gradle_replace :: bool
  gradle_mappings :: "string \<rightharpoonup> string list"

definition setQuiet :: "bool \<Rightarrow> Config \<Rightarrow> Config" where
  "setQuiet b cfg = cfg\<lparr>general_quiet := b\<rparr>"

definition setDebug :: "bool \<Rightarrow> Config \<Rightarrow> Config" where
  "setDebug b cfg = cfg\<lparr>general_debug := b\<rparr>"

definition setReplace :: "bool \<Rightarrow> Config \<Rightarrow> Config" where
  "setReplace b cfg = cfg\<lparr>gradle_replace := b\<rparr>"

section \<open>Flags and the argument rewriter\<close>

text \<open>
  Modelled from the spec: \<^verbatim>\<open>GrabFlag\<close> is defined in a utility file that is not part
  of the sources at hand. It reports whether the flag occurs and removes exactly the
  matched tokens, the others keeping their order.
\<close>

definition GrabFlag :: "string \<Rightarrow> string list \<Rightarrow> bool \<times> string list" where
  "GrabFlag flag args = (flag \<in> set args, filter (\<lambda>a. a \<noteq> flag) args)"

text \<open>
  Modelled from the spec: \<^verbatim>\<open>findFlag\<close> (same missing file) tells whether the flag
  is present.
\<close>

definition findFlag :: "string \<Rightarrow> string list \<Rightarrow> bool" where
  "findFlag flag args = (flag \<in> set args)"

text \<open>
  Modelled from the spec: \<^verbatim>\<open>findFlagValue\<close> (same missing file; the Maven sources
  call it \<^verbatim>\<open>findFlag\<close>) looks for a flag that takes a value: the flag is
  present when a token equal to it is followed by another token, which is its value.
\<close>

fun findFlagValue :: "string \<Rightarrow> string list \<Rightarrow> bool \<times> string" where
  "findFlagValue flag (a # v # rest) =
     (if a = flag then (True, v) else findFlagValue flag (v # rest))"
| "findFlagValue flag _ = (False, [])"

text \<open>
  Modelled from the spec: \<^verbatim>\<open>replaceArgs\<close> (same missing file). Each argument that
  is a key of the table is replaced, in place, by its replacement tokens; every other
  argument passes through. The spec says nothing about the third parameter, which the
  Gradle command always passes as \<^verbatim>\<open>true\<close>.
\<close>

definition replaceArgs :: "string list \<Rightarrow> (string \<rightharpoonup> string list) \<Rightarrow> bool \<Rightarrow> string list" where
  "replaceArgs args mappings allowsSubMatch =
     concat (map (\<lambda>a. case mappings a of None \<Rightarrow> [a] | Some r \<Rightarrow> r) args)"

section \<open>Searching upward: the Gradle family\<close>

text \<open>
  A Go result \<^verbatim>\<open>(string, error)\<close> is the pair of the string and the error, if
  any; a failed search returns the empty string with its error.
\<close>

datatype error = Err string

type_synonym found = "string \<times> error option"

text \<open>Resolves the \<^verbatim>\<open>gradlew\<close> executable (OS dependent).\<close>

definition resolveGradleWrapperExec :: "Context \<Rightarrow> string" where
  "resolveGradleWrapperExec ctx = (if IsWindows ctx then ''gradlew.bat'' else ''gradlew'')"

text \<open>Resolves the \<^verbatim>\<open>gradle\<close> executable (OS dependent).\<close>

definition resolveGradleExec :: "Context \<Rightarrow> string" where
  "resolveGradleExec ctx = (if IsWindows ctx then ''gradle.bat'' else ''gradle'')"

text \<open>
  The loop of \<^verbatim>\<open>findGradleExec\<close> and \<^verbatim>\<open>findMavenExec\<close> over the entries
  of the search path: the first entry that holds the executable wins.
\<close>

fun findExecIn :: "Context \<Rightarrow> string \<Rightarrow> string list \<Rightarrow> found" where
  "findExecIn ctx exe [] = ([], Some (Err (exe @ '' not found'')))"
| "findExecIn ctx exe (p # ps) =
     (let name = Join (absPath (GetWorkingDir ctx) p) exe
      in if FileExists ctx name then (render name, None) else findExecIn ctx exe ps)"

definition findGradleExec :: "Context \<Rightarrow> found" where
  "findGradleExec ctx = findExecIn ctx (resolveGradleExec ctx) (GetPaths ctx)"

text \<open>
  The loop over the candidate file names of one directory: the first one that exists,
  as \<^verbatim>\<open>filepath.Abs\<close> of its path.
\<close>

fun firstExisting :: "Context \<Rightarrow> path \<Rightarrow> string list \<Rightarrow> string option" where
  "firstExisting ctx dir [] = None"
| "firstExisting ctx dir (n # ns) =
     (if FileExists ctx (Join dir n) then Some (render (Join dir n))
      else firstExisting ctx dir ns)"

text \<open>Finds the gradle wrapper (if it exists).\<close>

function findGradleWrapperExec :: "Context \<Rightarrow> path \<Rightarrow> found" where
  "findGradleWrapperExec ctx dir =
     (if parent dir = dir then ([], Some (Err (resolveGradleWrapperExec ctx @ '' not found'')))
      else if FileExists ctx (Join dir (resolveGradleWrapperExec ctx))
      then (render (Join dir (resolveGradleWrapperExec ctx)), None)
      else findGradleWrapperExec ctx (parent dir))"
  by pat_completeness auto
termination
  by (relation "measure (\<lambda>(ctx, dir). length dir)") (auto simp: parent_def intro!: diff_less)

declare findGradleWrapperExec.simps [simp del]

definition gradleBuildFiles :: "path \<Rightarrow> string list" where
  "gradleBuildFiles dir =
     [''build.gradle'', ''build.gradle.kts'', Base dir @ ''.gradle'', Base dir @ ''.gradle.kts'']"

text \<open>
  Finds the nearest Gradle build file. Checks the following names in order:
  \<^verbatim>\<open>build.gradle\<close>, \<^verbatim>\<open>build.gradle.kts\<close>, \<^verbatim>\<open>${basedir}.gradle\<close>,
  \<^verbatim>\<open>${basedir}.gradle.kts\<close>.
\<close>

function findGradleBuildFile :: "Context \<Rightarrow> path \<Rightarrow> found" where
  "findGradleBuildFile ctx dir =
     (if parent dir = dir then ([], Some (Err ''Did not find Gradle build file''))
      else (case firstExisting ctx dir (gradleBuildFiles dir) of
              Some f \<Rightarrow> (f, None)
            | None \<Rightarrow> findGradleBuildFile ctx (parent dir)))"
  by pat_completeness auto
termination
  by (relation "measure (\<lambda>(ctx, dir). length dir)") (auto simp: parent_def intro!: diff_less)

declare findGradleBuildFile.simps [simp del]

definition gradleSettingsFiles :: "string list" where
  "gradleSettingsFiles = [''settings.gradle'', ''settings.gradle.kts'']"

text \<open>Finds \<^verbatim>\<open>settings.gradle(.kts)\<close>.\<close>

function findGradleSettingsFile :: "Context \<Rightarrow> path \<Rightarrow> found" where
  "findGradleSettingsFile ctx dir =
     (if parent dir = dir then ([], Some (Err ''Did not find Gradle settings file''))
      else (case firstExisting ctx dir gradleSettingsFiles of
              Some f \<Rightarrow> (f, None)
            | None \<Rightarrow> findGradleSettingsFile ctx (parent dir)))"
  by pat_completeness auto
termination
  by (relation "measure (\<lambda>(ctx, dir). length dir)") (auto simp: parent_def intro!: diff_less)

declare findGradleSettingsFile.simps [simp del]

definition gradleRootFiles :: "string list" where
  "gradleRootFiles = [''build.gradle'', ''build.gradle.kts'']"

text \<open>
  Finds the root build file. After the candidates of \<open>dir\<close>, and when a settings
  file is given, the walk ends where the string of the parent directory is not longer
  than the string of the settings file's directory.
\<close>

function findGradleRootFile :: "Context \<Rightarrow> path \<Rightarrow> string \<Rightarrow> found" where
  "findGradleRootFile ctx dir settingsFile =
     (if parent dir = dir then ([], Some (Err ''Did not find root build file''))
      else (case firstExisting ctx dir gradleRootFiles of
              Some f \<Rightarrow> (f, None)
            | None \<Rightarrow>
                if settingsFile \<noteq> [] \<and> length (render (parent dir)) \<le> length (Dir settingsFile)
                then ([], Some (Err ''Did not find root build file''))
                else findGradleRootFile ctx (parent dir) settingsFile))"
  by pat_completeness auto
termination
  by (relation "measure (\<lambda>(ctx, dir, sf). length dir)") (auto simp: parent_def intro!: diff_less)

declare findGradleRootFile.simps [simp del]

subsection \<open>The root search of the earlier revision\<close>

text \<open>
  The sources also hold an earlier revision of the Gradle resolver. Its root search
  starts at the working directory and takes a candidate only where the parent directory
  has no file of the same name; past the first directory it goes on with the nearest
  search.
\<close>

fun chainTop :: "Context \<Rightarrow> path \<Rightarrow> string list \<Rightarrow> string option" where
  "chainTop ctx dir [] = None"
| "chainTop ctx dir (n # ns) =
     (if FileExists ctx (Join dir n) \<and> \<not> FileExists ctx (Join (parent dir) n)
      then Some (render (Join dir n))
      else chainTop ctx dir ns)"

definition findGradleRootFile_earlier :: "Context \<Rightarrow> path \<Rightarrow> found" where
  "findGradleRootFile_earlier ctx dir =
     (if parent dir = dir then ([], Some (Err ''Did not find root build file''))
      else (case chainTop ctx dir gradleRootFiles of
              Some f \<Rightarrow> (f, None)
            | None \<Rightarrow> findGradleBuildFile ctx (parent dir)))"

subsection \<open>Explicit flags\<close>

text \<open>
  The three functions share one shape: the short flag, else the long one, and the
  value made absolute. The working directory is the one \<^verbatim>\<open>filepath.Abs\<close> uses.
\<close>

definition findExplicit :: "Context \<Rightarrow> string \<Rightarrow> string \<Rightarrow> string list \<Rightarrow> bool \<times> string" where
  "findExplicit ctx short long args =
     (let (found, file) = findFlagValue short args;
          (found, file) = (if \<not> found then findFlagValue long args else (found, file))
      in if found then (True, Abs (GetWorkingDir ctx) file) else (False, []))"

definition findExplicitProjectDir :: "Context \<Rightarrow> string list \<Rightarrow> bool \<times> string" where
  "findExplicitProjectDir ctx args = findExplicit ctx ''-p'' ''--project-dir'' args"

definition findExplicitGradleBuildFile :: "Context \<Rightarrow> string list \<Rightarrow> bool \<times> string" where
  "findExplicitGradleBuildFile ctx args = findExplicit ctx ''-b'' ''--build-file'' args"

definition findExplicitGradleSettingsFile :: "Context \<Rightarrow> string list \<Rightarrow> bool \<times> string" where
  "findExplicitGradleSettingsFile ctx args = findExplicit ctx ''-c'' ''--settings-file'' args"

definition resolveGradleWrapperExecutable :: "Context \<Rightarrow> string list \<Rightarrow> found" where
  "resolveGradleWrapperExecutable ctx args =
     (let pwd = GetWorkingDir ctx;
          (projectDirSet, projectDir) = findExplicitProjectDir ctx args
      in if projectDirSet then findGradleWrapperExec ctx (absPath pwd projectDir)
         else findGradleWrapperExec ctx pwd)"

definition resolveGradleRootDir ::
  "Context \<Rightarrow> string \<Rightarrow> string \<Rightarrow> string \<Rightarrow> string \<Rightarrow> string \<Rightarrow> string \<Rightarrow> string" where
  "resolveGradleRootDir ctx explicitProjectDir explicitBuildFile explicitSettingsFile
       buildFile rootBuildFile settingsFile =
     (if FileExistsStr ctx explicitProjectDir then explicitProjectDir
      else if FileExistsStr ctx explicitBuildFile then Dir explicitBuildFile
      else if FileExistsStr ctx rootBuildFile then Dir rootBuildFile
      else if FileExistsStr ctx explicitSettingsFile then Dir explicitSettingsFile
      else if FileExistsStr ctx settingsFile then Dir settingsFile
      else Dir buildFile)"

section \<open>The Gradle command\<close>

text \<open>
  The struct \<^verbatim>\<open>GradleCommand\<close>. An absent file is the empty string, as in the
  source.
\<close>

record GradleCommand =
  cmd_context :: Context
  config :: Config
  executable :: string
  args :: "string list"
  explicitProjectDir :: string
  buildFile :: string
  explicitBuildFile :: string
  rootBuildFile :: string
  settingsFile :: string
  explicitSettingsFile :: string

text \<open>
  What a resolver hands back: the process has ended through \<^verbatim>\<open>context.Exit\<close> with
  a status, or there is no command (\<^verbatim>\<open>nil\<close>), or there is one.
\<close>

datatype 'a outcome = Exited int | NoCommand | Command 'a

text \<open>
  The body of \<^verbatim>\<open>FindGradle\<close> after the executable is chosen: the returns for an
  explicit project directory, for an explicit build file, and for discovery. The
  arguments are the values \<^verbatim>\<open>FindGradle\<close> has computed before; an error that is
  \<open>None\<close> is Go's \<^verbatim>\<open>nil\<close>.
\<close>

definition gradleCommandFor ::
  "Context \<Rightarrow> Config \<Rightarrow> string \<Rightarrow> string list \<Rightarrow> bool \<times> string \<Rightarrow> bool \<times> string \<Rightarrow>
   bool \<times> string \<Rightarrow> found \<Rightarrow> found \<Rightarrow> found \<Rightarrow> GradleCommand outcome" where
  "gradleCommandFor ctx cfg exe argv projectDir explicitBuild explicitSettings settings build root =
     (let empty = \<lparr>cmd_context = ctx, config = cfg, executable = exe, args = argv,
                    explicitProjectDir = [], buildFile = [], explicitBuildFile = [],
                    rootBuildFile = [], settingsFile = [], explicitSettingsFile = []\<rparr>
      in if fst projectDir then Command (empty\<lparr>explicitProjectDir := snd projectDir\<rparr>)
         else if fst explicitBuild then
           (if fst explicitSettings
            then Command (empty\<lparr>explicitBuildFile := snd explicitBuild,
                                 explicitSettingsFile := snd explicitSettings\<rparr>)
            else Command (empty\<lparr>explicitBuildFile := snd explicitBuild,
                                 settingsFile := fst settings\<rparr>))
         else
           (let rootFile = (if snd root \<noteq> None then fst build else fst root);
                discovered = empty\<lparr>buildFile := fst build, rootBuildFile := rootFile,
                                    settingsFile := fst settings,
                                    explicitSettingsFile := snd explicitSettings\<rparr>
            in if snd build \<noteq> None then
                 (if fst explicitSettings
                  then Command (empty\<lparr>buildFile := fst build, rootBuildFile := rootFile,
                                       explicitSettingsFile := snd explicitSettings\<rparr>)
                  else if snd settings = None then Command discovered
                  else if IsExplicit ctx then Exited (- 1)
                  else NoCommand)
               else Command discovered))"

text \<open>
  \<^verbatim>\<open>FindGradle\<close>. \<^verbatim>\<open>ReadConfig\<close>, which reads the configuration of the
  project's root directory from disk, lives in a file that is not part of the sources at
  hand and is a parameter. The notes the function prints on its way are left out: they
  change no result.
\<close>

definition FindGradle ::
  "(Context \<Rightarrow> string \<Rightarrow> Config) \<Rightarrow> Context \<Rightarrow> string list \<Rightarrow> GradleCommand outcome" where
  "FindGradle ReadConfig ctx argv =
     (let pwd = GetWorkingDir ctx;
          gradle = findGradleExec ctx;
          projectDir = findExplicitProjectDir ctx argv;
          gradlew = resolveGradleWrapperExecutable ctx argv;
          explicitBuild = findExplicitGradleBuildFile ctx argv;
          explicitSettings = findExplicitGradleSettingsFile ctx argv;
          settings = findGradleSettingsFile ctx pwd;
          build = findGradleBuildFile ctx pwd;
          sf = (if fst explicitBuild then snd explicitBuild else fst settings);
          root = findGradleRootFile ctx (parent pwd) sf;
          rootdir = resolveGradleRootDir ctx (snd projectDir) (snd explicitBuild)
                      (snd explicitSettings) (fst build) (fst root) (fst settings);
          cfg = setQuiet (IsQuiet ctx) (ReadConfig ctx rootdir)
      in if snd gradlew = None
         then gradleCommandFor ctx cfg (fst gradlew) argv projectDir explicitBuild
                explicitSettings settings build root
         else if snd gradle = None
         then gradleCommandFor ctx cfg (fst gradle) argv projectDir explicitBuild
                explicitSettings settings build root
         else if IsExplicit ctx then Exited (- 1)
         else NoCommand)"

subsection \<open>Configuring and executing\<close>

definition replaceGradleTasks :: "Config \<Rightarrow> string list \<Rightarrow> string list" where
  "replaceGradleTasks cfg argv =
     (if gradle_replace cfg then replaceArgs argv (gradle_mappings cfg) True else argv)"

text \<open>Pieces of the printed text: \<^verbatim>\<open>'x'\<close>, \<^verbatim>\<open>strings.Join(xs, " ")\<close>, and
  \<^verbatim>\<open>fmt.Println(label, value)\<close>, which puts a space between its operands.\<close>

definition quoted :: "string \<Rightarrow> string" where
  "quoted s = CHR 0x27 # s @ [CHR 0x27]"

fun joinSpace :: "string list \<Rightarrow> string" where
  "joinSpace [] = []"
| "joinSpace [x] = x"
| "joinSpace (x # xs) = x @ CHR '' '' # joinSpace xs"

definition showBool :: "bool \<Rightarrow> string" where
  "showBool b = (if b then ''true'' else ''false'')"

definition showArgs :: "string list \<Rightarrow> string" where
  "showArgs xs = ''['' @ joinSpace xs @ '']''"

definition println2 :: "string \<Rightarrow> string \<Rightarrow> string" where
  "println2 label v = label @ CHR '' '' # v"

text \<open>\<^verbatim>\<open>debugGradle\<close>: the lines of the dump, none unless debugging is on.\<close>

definition debugGradle ::
  "GradleCommand \<Rightarrow> bool \<Rightarrow> string list \<Rightarrow> string list \<Rightarrow> string list \<Rightarrow> string list" where
  "debugGradle c nearest oargs rargs argv =
     (if general_debug (config c) then
        [println2 ''nearest              = '' (showBool nearest),
         println2 ''rootBuildFile        = '' (rootBuildFile c),
         println2 ''buildFile            = '' (buildFile c),
         println2 ''settingsFile         = '' (settingsFile c),
         println2 ''explicitBuildFile    = '' (explicitBuildFile c),
         println2 ''explicitSettingsFile = '' (explicitSettingsFile c),
         println2 ''explicitProjectDir   = '' (explicitProjectDir c),
         println2 ''original args        = '' (showArgs oargs)]
        @ (if gradle_replace (config c) then [println2 ''replaced args        = '' (showArgs rargs)]
           else [])
        @ [println2 ''actual args          = '' (showArgs argv), []]
      else [])"

text \<open>
  The choice of the build file in \<^verbatim>\<open>doConfigureGradle\<close>: the arguments it adds,
  the banner clause it adds, and \<^verbatim>\<open>buildFileSet\<close>.
\<close>

definition buildFileChoice :: "GradleCommand \<Rightarrow> bool \<Rightarrow> string list \<times> string list \<times> bool" where
  "buildFileChoice c nearest =
     (if explicitBuildFile c \<noteq> []
      then ([], [''to run buildFile '' @ quoted (explicitBuildFile c) @ '':''], True)
      else if nearest \<and> buildFile c \<noteq> []
      then ([''-b'', buildFile c], [''to run buildFile '' @ quoted (buildFile c) @ '':''], True)
      else if rootBuildFile c \<noteq> []
      then ([''-b'', rootBuildFile c],
            [''to run buildFile '' @ quoted (rootBuildFile c) @ '':''], True)
      else ([], [], False))"

text \<open>The choice of the settings file that follows it.\<close>

definition settingsFileChoice :: "GradleCommand \<Rightarrow> bool \<Rightarrow> string list \<times> string list" where
  "settingsFileChoice c buildFileSet =
     (if explicitSettingsFile c \<noteq> []
      then ([], if \<not> buildFileSet
                then [''with settings at '' @ quoted (explicitSettingsFile c) @ '':''] else [])
      else if settingsFile c \<noteq> []
      then ([''-c'', settingsFile c],
            if \<not> buildFileSet
            then [''with settings at '' @ quoted (settingsFile c) @ '':''] else [])
      else ([], []))"

text \<open>
  The tool-selection flags and the banner clauses of \<^verbatim>\<open>doConfigureGradle\<close>.
\<close>

definition selectionFlags :: "GradleCommand \<Rightarrow> bool \<Rightarrow> string list \<times> string list" where
  "selectionFlags c nearest =
     (if explicitProjectDir c \<noteq> []
      then ([], [''to run project at '' @ quoted (explicitProjectDir c) @ '':''])
      else (let (bargs, bbanner, buildFileSet) = buildFileChoice c nearest;
                (sargs, sbanner) = settingsFileChoice c buildFileSet
            in (bargs @ sargs, bbanner @ sbanner)))"

text \<open>
  What \<^verbatim>\<open>doConfigureGradle\<close> leaves behind: the command with its final arguments
  and its configuration, the locals it hands to \<^verbatim>\<open>debugGradle\<close>, and the lines it
  has printed.
\<close>

record GradleConfigured =
  command :: GradleCommand
  nearest :: bool
  oargs :: "string list"
  rargs :: "string list"
  printed :: "string list"

definition doConfigureGradle :: "GradleCommand \<Rightarrow> GradleConfigured" where
  "doConfigureGradle c =
     (let banner0 = [''Using gradle at '' @ quoted (executable c)];
          (near, o1) = GrabFlag ''-gn'' (args c);
          debugSet = findFlag ''-gd'' o1;
          (debug, o2) = GrabFlag ''-gd'' o1;
          replaceSet = findFlag ''-gr'' o2;
          (skipReplace, o3) = GrabFlag ''-gr'' o2;
          cfg1 = (if debugSet then setDebug debug (config c) else config c);
          cfg2 = (if replaceSet then setReplace (\<not> skipReplace) cfg1 else cfg1);
          ra = replaceGradleTasks cfg2 o3;
          (flags, clauses) = selectionFlags c near;
          c' = c\<lparr>config := cfg2, args := flags @ ra\<rparr>
      in \<lparr>command = c', nearest = near, oargs = o3, rargs = ra,
          printed = debugGradle c' near o3 ra (flags @ ra)
                   @ (if \<not> general_quiet cfg2 then [joinSpace (banner0 @ clauses)] else [])\<rparr>)"

text \<open>\<^verbatim>\<open>doExecuteGradle\<close> starts the executable on the arguments.\<close>

definition doExecuteGradle :: "GradleCommand \<Rightarrow> string \<times> string list" where
  "doExecuteGradle c = (executable c, args c)"

text \<open>\<^verbatim>\<open>Execute\<close>: the process that is started, and what has been printed.\<close>

definition Execute :: "GradleCommand \<Rightarrow> (string \<times> string list) \<times> string list" where
  "Execute c = (let r = doConfigureGradle c in (doExecuteGradle (command r), printed r))"

section \<open>The Maven family\<close>

record MavenCommand =
  mvn_context :: Context
  mvn_executable :: string
  mvn_args :: "string list"
  mvn_buildFile :: string
  mvn_explicitBuildFile :: string
  mvn_rootBuildFile :: string

text \<open>Resolves the \<^verbatim>\<open>mvnw\<close> executable (OS dependent).\<close>

definition resolveMavenWrapperExec :: "Context \<Rightarrow> string" where
  "resolveMavenWrapperExec ctx = (if IsWindows ctx then ''mvnw.bat'' else ''mvnw'')"

text \<open>Resolves the \<^verbatim>\<open>mvn\<close> executable (OS dependent).\<close>

definition resolveMavenExec :: "Context \<Rightarrow> string" where
  "resolveMavenExec ctx = (if IsWindows ctx then ''mvn.bat'' else ''mvn'')"

definition findMavenExec :: "Context \<Rightarrow> found" where
  "findMavenExec ctx = findExecIn ctx (resolveMavenExec ctx) (GetPaths ctx)"

text \<open>Finds the Maven wrapper (if it exists).\<close>

function findMavenWrapperExec :: "Context \<Rightarrow> path \<Rightarrow> found" where
  "findMavenWrapperExec ctx dir =
     (if parent dir = dir then ([], Some (Err (resolveMavenWrapperExec ctx @ '' not found'')))
      else if FileExists ctx (Join dir (resolveMavenWrapperExec ctx))
      then (render (Join dir (resolveMavenWrapperExec ctx)), None)
      else findMavenWrapperExec ctx (parent dir))"
  by pat_completeness auto
termination
  by (relation "measure (\<lambda>(ctx, dir). length dir)") (auto simp: parent_def intro!: diff_less)

declare findMavenWrapperExec.simps [simp del]

definition findExplicitMavenBuildFile :: "Context \<Rightarrow> string list \<Rightarrow> bool \<times> string" where
  "findExplicitMavenBuildFile ctx argv = findExplicit ctx ''-f'' ''--file'' argv"

text \<open>Finds the nearest \<^verbatim>\<open>pom.xml\<close>.\<close>

function findMavenBuildFile :: "Context \<Rightarrow> path \<Rightarrow> found" where
  "findMavenBuildFile ctx dir =
     (if parent dir = dir then ([], Some (Err ''Did not find pom.xml''))
      else if FileExists ctx (Join dir ''pom.xml'') then (render (Join dir ''pom.xml''), None)
      else findMavenBuildFile ctx (parent dir))"
  by pat_completeness auto
termination
  by (relation "measure (\<lambda>(ctx, dir). length dir)") (auto simp: parent_def intro!: diff_less)

declare findMavenBuildFile.simps [simp del]

text \<open>Finds the root \<^verbatim>\<open>pom.xml\<close>.\<close>

function findMavenRootFile :: "Context \<Rightarrow> path \<Rightarrow> found" where
  "findMavenRootFile ctx dir =
     (if parent dir = dir then ([], Some (Err ''Did not find root pom.xml''))
      else if FileExists ctx (Join dir ''pom.xml'') then (render (Join dir ''pom.xml''), None)
      else findMavenRootFile ctx (parent dir))"
  by pat_completeness auto
termination
  by (relation "measure (\<lambda>(ctx, dir). length dir)") (auto simp: parent_def intro!: diff_less)

declare findMavenRootFile.simps [simp del]

text \<open>
  The body of \<^verbatim>\<open>FindMaven\<close> after the executable is chosen.
\<close>

definition mavenCommandFor ::
  "Context \<Rightarrow> string \<Rightarrow> string list \<Rightarrow> bool \<times> string \<Rightarrow> MavenCommand outcome" where
  "mavenCommandFor ctx exe argv explicitBuild =
     (let empty = \<lparr>mvn_context = ctx, mvn_executable = exe, mvn_args = argv,
                    mvn_buildFile = [], mvn_explicitBuildFile = [], mvn_rootBuildFile = []\<rparr>
      in if fst explicitBuild then Command (empty\<lparr>mvn_explicitBuildFile := snd explicitBuild\<rparr>)
         else
           (let root = findMavenRootFile ctx (parent (GetWorkingDir ctx));
                build = findMavenBuildFile ctx (GetWorkingDir ctx);
                rootFile = (if snd root \<noteq> None then fst build else fst root)
            in if snd build \<noteq> None then (if IsExplicit ctx then Exited (- 1) else NoCommand)
               else Command (empty\<lparr>mvn_rootBuildFile := rootFile, mvn_buildFile := fst build\<rparr>)))"

text \<open>\<^verbatim>\<open>FindMaven\<close>; its printed warnings are left out.\<close>

definition FindMaven :: "Context \<Rightarrow> string list \<Rightarrow> MavenCommand outcome" where
  "FindMaven ctx argv =
     (let pwd = GetWorkingDir ctx;
          mvnw = findMavenWrapperExec ctx pwd;
          mvn = findMavenExec ctx;
          explicitBuild = findExplicitMavenBuildFile ctx argv
      in if snd mvnw = None then mavenCommandFor ctx (fst mvnw) argv explicitBuild
         else if snd mvn = None then mavenCommandFor ctx (fst mvn) argv explicitBuild
         else if IsExplicit ctx then Exited (- 1)
         else NoCommand)"

text \<open>
  What \<^verbatim>\<open>MavenCommand.Execute\<close> computes before it starts the process: the
  locals \<^verbatim>\<open>nearest\<close> and \<^verbatim>\<open>nargs\<close>, the final arguments and the printed lines.
\<close>

record MavenConfigured =
  mvn_nearest :: bool
  mvn_nargs :: "string list"
  mvn_final :: "string list"
  mvn_printed :: "string list"

definition mavenConfigure :: "MavenCommand \<Rightarrow> MavenConfigured" where
  "mavenConfigure c =
     (let banner0 = [''Using maven at '' @ quoted (mvn_executable c)];
          (near, n1) = GrabFlag ''-gn'' (mvn_args c);
          (debug, n2) = GrabFlag ''-gd'' n1;
          dump = (if debug then
                    [println2 ''nearest            = '' (showBool near),
                     println2 ''args               = '' (showArgs n2),
                     println2 ''rootBuildFile      = '' (mvn_rootBuildFile c),
                     println2 ''buildFile          = '' (mvn_buildFile c),
                     println2 ''explicitBuildFile  = '' (mvn_explicitBuildFile c),
                     []]
                  else []);
          (flags, clauses) =
             (if mvn_explicitBuildFile c \<noteq> []
              then ([], [''to run buildFile '' @ quoted (mvn_explicitBuildFile c) @ '':''])
              else if near \<and> mvn_buildFile c \<noteq> []
              then ([''-f'', mvn_buildFile c],
                    [''to run buildFile '' @ quoted (mvn_buildFile c) @ '':''])
              else if mvn_rootBuildFile c \<noteq> []
              then ([''-f'', mvn_rootBuildFile c],
                    [''to run buildFile '' @ quoted (mvn_rootBuildFile c) @ '':''])
              else ([], []))
      in \<lparr>mvn_nearest = near, mvn_nargs = n2, mvn_final = flags @ n2,
          mvn_printed = dump @ (if \<not> IsQuiet (mvn_context c)
                                then [joinSpace (banner0 @ clauses)] else [])\<rparr>)"

text \<open>\<^verbatim>\<open>MavenCommand.Execute\<close>: the process that is started, and what has been
  printed.\<close>

definition MavenExecute :: "MavenCommand \<Rightarrow> (string \<times> string list) \<times> string list" where
  "MavenExecute c =
     (let r = mavenConfigure c in ((mvn_executable c, mvn_final r), mvn_printed r))"

section \<open>Example trees\<close>

text \<open>
  A context over a finite tree: the listed paths exist, the search path is
  \<^verbatim>\<open>/usr/bin\<close>, the resolution is explicit and not quiet.
\<close>

definition treeContext :: "path list \<Rightarrow> path \<Rightarrow> Context" where
  "treeContext files pwd =
     \<lparr>FileExists = (\<lambda>p. p \<in> set files), GetWorkingDir = pwd, GetPaths = [''/usr/bin''],
      IsWindows = False, IsExplicit = True, IsQuiet = False\<rparr>"

text \<open>A configuration with everything off, and the reader that always finds it.\<close>

definition plainConfig :: Config where
  "plainConfig = \<lparr>general_quiet = False, general_debug = False, gradle_replace = False,
                   gradle_mappings = Map.empty\<rparr>"

definition readPlain :: "Context \<Rightarrow> string \<Rightarrow> Config" where
  "readPlain ctx rootdir = plainConfig"

text \<open>A configuration that rewrites, with one alias, and its reader.\<close>

definition aliasConfig :: Config where
  "aliasConfig = \<lparr>general_quiet = False, general_debug = True, gradle_replace = True,
                   gradle_mappings = [''-b'' \<mapsto> [''--build-file'']]\<rparr>"

definition readAlias :: "Context \<Rightarrow> string \<Rightarrow> Config" where
  "readAlias ctx rootdir = aliasConfig"

text \<open>
  A two-level project: wrapper, build file and settings file in \<^verbatim>\<open>/p\<close>, a build
  file in \<^verbatim>\<open>/p/child\<close>, which is the working directory.
\<close>

definition wrapperTree :: Context where
  "wrapperTree = treeContext [[''p'', ''gradlew''], [''p'', ''build.gradle''], [''p'', ''settings.gradle''],
       [''p'', ''child'', ''build.gradle'']] [''p'', ''child'']"

text \<open>
  The same project with an extra build file \<^verbatim>\<open>explicit.gradle\<close> in the child
  instead of \<^verbatim>\<open>build.gradle\<close>.
\<close>

definition explicitTree :: Context where
  "explicitTree = treeContext [[''p'', ''gradlew''], [''p'', ''build.gradle''], [''p'', ''settings.gradle''],
       [''p'', ''child'', ''explicit.gradle'']] [''p'', ''child'']"




text \<open>
  A single project: build file, settings file and \<^verbatim>\<open>pom.xml\<close> in the working
  directory \<^verbatim>\<open>/p\<close>, no wrapper, the system tools on the search path.
\<close>

definition singleTree :: Context where
  "singleTree = treeContext [[''p'', ''build.gradle''], [''p'', ''settings.gradle''], [''p'', ''pom.xml''],
       [''usr'', ''bin'', ''gradle''], [''usr'', ''bin'', ''mvn'']] [''p'']"


text \<open>The same chain with a build file in the working directory too.\<close>

definition fullChainTree :: Context where
  "fullChainTree = treeContext [[''a'', ''b'', ''c'', ''build.gradle''], [''a'', ''b'', ''build.gradle''],
       [''a'', ''build.gradle''], [''usr'', ''bin'', ''gradle'']] [''a'', ''b'', ''c'']"

text \<open>
  A project \<^verbatim>\<open>/p/a\<close> with its own settings and build file, inside a directory
  \<^verbatim>\<open>/p\<close> that has a build file as well.
\<close>

definition nestedTree :: Context where
  "nestedTree = treeContext [[''p'', ''a'', ''settings.gradle''], [''p'', ''a'', ''build.gradle''],
       [''p'', ''build.gradle''], [''usr'', ''bin'', ''gradle'']] [''p'', ''a'']"

text \<open>
  A two-level project for both tools: \<^verbatim>\<open>/p\<close> has wrapper, build file, settings file
  and \<^verbatim>\<open>pom.xml\<close>; the working directory \<^verbatim>\<open>/p/child\<close> has a build file named
  after it and a \<^verbatim>\<open>pom.xml\<close>.
\<close>

definition modulesTree :: Context where
  "modulesTree = treeContext [[''p'', ''gradlew''], [''p'', ''build.gradle''], [''p'', ''settings.gradle''],
       [''p'', ''child'', ''child.gradle''], [''p'', ''pom.xml''], [''p'', ''child'', ''pom.xml''],
       [''usr'', ''bin'', ''mvn'']] [''p'', ''child'']"

text \<open>A project right under the filesystem root, which has a build file too.\<close>

definition rootedTree :: Context where
  "rootedTree = treeContext [[''a'', ''build.gradle''], [''build.gradle''], [''usr'', ''bin'', ''gradle'']] [''a'']"

section \<open>Facts about the searches\<close>

text \<open>Unfolding rules for running the searches on a given tree.\<close>

lemmas walk_simps = findGradleWrapperExec.simps findGradleBuildFile.simps
  findGradleSettingsFile.simps findGradleRootFile.simps findMavenWrapperExec.simps
  findMavenBuildFile.simps findMavenRootFile.simps

lemmas path_defs = parent_def Join_def render_def Base_def absPath_def Abs_def isAbs_def
  Dir_def Clean_def

lemmas find_defs = findGradleExec_def findMavenExec_def resolveGradleExec_def
  resolveMavenExec_def resolveGradleWrapperExec_def resolveMavenWrapperExec_def
  resolveGradleWrapperExecutable_def findExplicit_def findExplicitProjectDir_def
  findExplicitGradleBuildFile_def findExplicitGradleSettingsFile_def
  findExplicitMavenBuildFile_def gradleBuildFiles_def gradleSettingsFiles_def
  gradleRootFiles_def

lemma render_nonempty: "render p \<noteq> []"
  by (cases p) (simp_all add: render_def)

lemma firstExisting_Some:
  "firstExisting ctx dir ns = Some f \<Longrightarrow>
     \<exists>n \<in> set ns. f = render (Join dir n) \<and> FileExists ctx (Join dir n)"
  by (induction ns) (auto split: if_splits)

lemma firstExisting_None:
  "firstExisting ctx dir ns = None \<longleftrightarrow> (\<forall>n \<in> set ns. \<not> FileExists ctx (Join dir n))"
  by (induction ns) auto

lemma firstExisting_nonempty: "firstExisting ctx dir ns = Some f \<Longrightarrow> f \<noteq> []"
  using firstExisting_Some[of ctx dir ns f] by (auto simp: render_nonempty)

text \<open>A search has no error exactly when it returns a non-empty string.\<close>

lemma findExecIn_found: "snd (findExecIn ctx exe ps) = None \<longleftrightarrow> fst (findExecIn ctx exe ps) \<noteq> []"
  by (induction ps) (auto simp: Let_def render_nonempty)

lemma findGradleWrapperExec_found:
  "snd (findGradleWrapperExec ctx dir) = None \<longleftrightarrow> fst (findGradleWrapperExec ctx dir) \<noteq> []"
  by (induction ctx dir rule: findGradleWrapperExec.induct)
     (subst (1 2) findGradleWrapperExec.simps, simp add: render_nonempty)

lemma findGradleBuildFile_found:
  "snd (findGradleBuildFile ctx dir) = None \<longleftrightarrow> fst (findGradleBuildFile ctx dir) \<noteq> []"
  by (induction ctx dir rule: findGradleBuildFile.induct)
     (subst (1 2) findGradleBuildFile.simps, auto simp: firstExisting_nonempty split: option.splits)

lemma findGradleSettingsFile_found:
  "snd (findGradleSettingsFile ctx dir) = None \<longleftrightarrow> fst (findGradleSettingsFile ctx dir) \<noteq> []"
  by (induction ctx dir rule: findGradleSettingsFile.induct)
     (subst (1 2) findGradleSettingsFile.simps,
      auto simp: firstExisting_nonempty split: option.splits)

lemma findGradleRootFile_found:
  "snd (findGradleRootFile ctx dir sf) = None \<longleftrightarrow> fst (findGradleRootFile ctx dir sf) \<noteq> []"
  by (induction ctx dir sf rule: findGradleRootFile.induct)
     (subst (1 2) findGradleRootFile.simps, auto simp: firstExisting_nonempty split: option.splits)

lemma findMavenBuildFile_found:
  "snd (findMavenBuildFile ctx dir) = None \<longleftrightarrow> fst (findMavenBuildFile ctx dir) \<noteq> []"
  by (induction ctx dir rule: findMavenBuildFile.induct)
     (subst (1 2) findMavenBuildFile.simps, simp add: render_nonempty)

lemma findMavenRootFile_found:
  "snd (findMavenRootFile ctx dir) = None \<longleftrightarrow> fst (findMavenRootFile ctx dir) \<noteq> []"
  by (induction ctx dir rule: findMavenRootFile.induct)
     (subst (1 2) findMavenRootFile.simps, simp add: render_nonempty)

section \<open>The argument rewriter\<close>

lemma replaceArgs_empty: "replaceArgs argv Map.empty b = argv"
  by (induction argv) (simp_all add: replaceArgs_def)

text \<open>
  Claim C9. For every argument sequence, the rewriter returns its input unchanged when
  rewriting is disabled or when the alias table is empty.
\<close>

theorem replaceGradleTasks_identity:
  "\<not> gradle_replace cfg \<or> gradle_mappings cfg = Map.empty \<Longrightarrow>
     replaceGradleTasks cfg argv = argv"
  by (auto simp: replaceGradleTasks_def replaceArgs_empty)

theorem replaceGradleTasks_identity_witness:
  "gradle_replace (plainConfig\<lparr>gradle_replace := True\<rparr>)
   \<and> gradle_mappings (plainConfig\<lparr>gradle_replace := True\<rparr>) = Map.empty
   \<and> replaceGradleTasks (plainConfig\<lparr>gradle_replace := True\<rparr>) [''clean'', ''-x'', ''test'']
       = [''clean'', ''-x'', ''test'']"
  using replaceGradleTasks_identity
    [of "plainConfig\<lparr>gradle_replace := True\<rparr>" "[''clean'', ''-x'', ''test'']"]
  by (simp add: plainConfig_def)

section \<open>No executable\<close>

text \<open>
  Claim C5. When neither a wrapper nor a system executable is found, the resolver ends
  the process with the status \<open>- 1\<close>, which is not zero, in explicit mode, and returns
  no command, without ending the process, otherwise. This holds for the Gradle and for
  the Maven resolver.
\<close>

theorem no_executable_outcome:
  "(snd (resolveGradleWrapperExecutable ctx argv) \<noteq> None \<and> snd (findGradleExec ctx) \<noteq> None
      \<longrightarrow> FindGradle ReadConfig ctx argv = (if IsExplicit ctx then Exited (- 1) else NoCommand))
   \<and> (snd (findMavenWrapperExec ctx (GetWorkingDir ctx)) \<noteq> None \<and> snd (findMavenExec ctx) \<noteq> None
      \<longrightarrow> FindMaven ctx argv = (if IsExplicit ctx then Exited (- 1) else NoCommand))
   \<and> (- 1 :: int) \<noteq> 0"
  by (simp add: FindGradle_def FindMaven_def Let_def)

theorem no_executable_outcome_witness:
  "(snd (resolveGradleWrapperExecutable (treeContext [[''p'', ''build.gradle'']] [''p'']) []) \<noteq> None
    \<and> snd (findGradleExec (treeContext [[''p'', ''build.gradle'']] [''p''])) \<noteq> None)
   \<and> FindGradle readPlain (treeContext [[''p'', ''build.gradle'']] [''p'']) [] = Exited (- 1)
   \<and> (snd (findMavenWrapperExec (treeContext [[''p'', ''build.gradle'']] [''p''])
             (GetWorkingDir (treeContext [[''p'', ''build.gradle'']] [''p'']))) \<noteq> None
    \<and> snd (findMavenExec (treeContext [[''p'', ''build.gradle'']] [''p''])) \<noteq> None)
   \<and> FindMaven (treeContext [[''p'', ''build.gradle'']] [''p'']) [] = Exited (- 1)"
proof -
  let ?C = "treeContext [[''p'', ''build.gradle'']] [''p'']"
  have g: "snd (resolveGradleWrapperExecutable ?C []) \<noteq> None \<and> snd (findGradleExec ?C) \<noteq> None"
    by (simp add: treeContext_def walk_simps path_defs find_defs Let_def)
  have m: "snd (findMavenWrapperExec ?C (GetWorkingDir ?C)) \<noteq> None \<and> snd (findMavenExec ?C) \<noteq> None"
    by (simp add: treeContext_def walk_simps path_defs find_defs Let_def)
  have e: "IsExplicit ?C" by (simp add: treeContext_def)
  show ?thesis
    using no_executable_outcome [of ?C "[]" readPlain] g m e by simp
qed

section \<open>Explicit flags\<close>

text \<open>
  A flag takes a value when a token follows it: the flag is then among all tokens but
  the last.
\<close>

lemma findFlagValue_value:
  "fst (findFlagValue flag xs) \<Longrightarrow>
     \<exists>i. Suc i < length xs \<and> xs ! i = flag \<and> snd (findFlagValue flag xs) = xs ! Suc i"
proof (induction flag xs rule: findFlagValue.induct)
  case (1 flag a v rest)
  show ?case
  proof (cases "a = flag")
    case True
    then show ?thesis by (intro exI[of _ 0]) simp
  next
    case False
    with 1 obtain i where "Suc i < length (v # rest)" "(v # rest) ! i = flag"
      "snd (findFlagValue flag (v # rest)) = (v # rest) ! Suc i" by auto
    with False show ?thesis by (intro exI[of _ "Suc i"]) simp
  qed
qed simp_all

lemma findFlagValue_present:
  "Suc i < length xs \<Longrightarrow> xs ! i = flag \<Longrightarrow> fst (findFlagValue flag xs)"
proof (induction flag xs arbitrary: i rule: findFlagValue.induct)
  case (1 flag a v rest)
  show ?case
  proof (cases "a = flag")
    case True then show ?thesis by simp
  next
    case False
    with "1.prems" obtain k where "i = Suc k" by (cases i) auto
    with "1.prems" False "1.IH"[of k] show ?thesis by simp
  qed
qed simp_all

lemma findFlagValue_absent: "\<not> fst (findFlagValue flag xs) \<Longrightarrow> snd (findFlagValue flag xs) = []"
  by (induction flag xs rule: findFlagValue.induct) (simp_all split: if_splits)

lemma findExplicit_alt:
  "findExplicit ctx short long argv =
     (if fst (findFlagValue short argv)
      then (True, Abs (GetWorkingDir ctx) (snd (findFlagValue short argv)))
      else if fst (findFlagValue long argv)
      then (True, Abs (GetWorkingDir ctx) (snd (findFlagValue long argv)))
      else (False, []))"
  by (simp add: findExplicit_def case_prod_beta Let_def)

lemma findExplicit_present:
  assumes "Suc i < length argv" "argv ! i = short \<or> argv ! i = long"
  shows "\<exists>j. Suc j < length argv \<and> (argv ! j = short \<or> argv ! j = long)
            \<and> findExplicit ctx short long argv = (True, Abs (GetWorkingDir ctx) (argv ! Suc j))"
proof (cases "fst (findFlagValue short argv)")
  case True
  from findFlagValue_value[OF True] obtain j where
    "Suc j < length argv" "argv ! j = short" "snd (findFlagValue short argv) = argv ! Suc j" by blast
  with True show ?thesis
    by (intro exI[of _ j]) (simp add: findExplicit_alt)
next
  case False
  with assms findFlagValue_present[of i argv short] have "argv ! i = long" by blast
  with assms have l: "fst (findFlagValue long argv)" by (simp add: findFlagValue_present)
  from findFlagValue_value[OF l] obtain j where
    "Suc j < length argv" "argv ! j = long" "snd (findFlagValue long argv) = argv ! Suc j" by blast
  with False l show ?thesis
    by (intro exI[of _ j]) (simp add: findExplicit_alt)
qed

lemma findExplicit_absent:
  assumes "\<And>j. Suc j < length argv \<Longrightarrow> argv ! j \<noteq> short \<and> argv ! j \<noteq> long"
  shows "findExplicit ctx short long argv = (False, [])"
proof -
  have "\<not> fst (findFlagValue short argv)" "\<not> fst (findFlagValue long argv)"
    using assms findFlagValue_value by blast+
  then show ?thesis by (simp add: findExplicit_alt)
qed

lemma findExplicit_cases:
  "findExplicit ctx short long argv = (False, []) \<or> (fst (findExplicit ctx short long argv) \<and> snd (findExplicit ctx short long argv) \<noteq> [])"
  by (simp add: findExplicit_alt Abs_def render_nonempty)


lemma in_butlast_iff: "flag \<in> set (butlast xs) \<longleftrightarrow> (\<exists>i. Suc i < length xs \<and> xs ! i = flag)"
  by (auto simp: in_set_conv_nth nth_butlast less_diff_conv)

text \<open>
  Claim C6. For every argument list with \<^verbatim>\<open>-p\<close> or \<^verbatim>\<open>--project-dir\<close> and a value,
  and an executable to be found, the command has \<open>explicitProjectDir\<close> equal to the
  absolute path of a value so given, every other file field empty, the arguments
  untouched, and the executable resolved as always: the wrapper found upward from the
  project directory, else the system binary.
\<close>

theorem explicit_project_dir_command:
  assumes flag: "''-p'' \<in> set (butlast argv) \<or> ''--project-dir'' \<in> set (butlast argv)"
    and exe: "snd (resolveGradleWrapperExecutable ctx argv) = None \<or> snd (findGradleExec ctx) = None"
  shows "\<exists>c j. FindGradle ReadConfig ctx argv = Command c
           \<and> Suc j < length argv \<and> (argv ! j = ''-p'' \<or> argv ! j = ''--project-dir'')
           \<and> explicitProjectDir c = Abs (GetWorkingDir ctx) (argv ! Suc j)
           \<and> buildFile c = [] \<and> rootBuildFile c = [] \<and> settingsFile c = []
           \<and> explicitBuildFile c = [] \<and> explicitSettingsFile c = []
           \<and> args c = argv
           \<and> executable c =
               (if snd (findGradleWrapperExec ctx (absPath (GetWorkingDir ctx) (explicitProjectDir c))) = None
                then fst (findGradleWrapperExec ctx (absPath (GetWorkingDir ctx) (explicitProjectDir c)))
                else fst (findGradleExec ctx))"
proof -
  from flag obtain i where "Suc i < length argv" "argv ! i = ''-p'' \<or> argv ! i = ''--project-dir''"
    by (auto simp: in_butlast_iff)
  from findExplicit_present[OF this, of ctx] obtain j where
    j: "Suc j < length argv" "argv ! j = ''-p'' \<or> argv ! j = ''--project-dir''"
    and d: "findExplicitProjectDir ctx argv = (True, Abs (GetWorkingDir ctx) (argv ! Suc j))"
    by (auto simp: findExplicitProjectDir_def)
  from d have w: "resolveGradleWrapperExecutable ctx argv =
      findGradleWrapperExec ctx (absPath (GetWorkingDir ctx) (Abs (GetWorkingDir ctx) (argv ! Suc j)))"
    by (simp add: resolveGradleWrapperExecutable_def)
  show ?thesis
    using exe j d w
    by (auto simp: FindGradle_def gradleCommandFor_def Let_def)
qed

theorem explicit_project_dir_command_witness:
  "(''-p'' \<in> set (butlast [''-p'', ''/p'', ''build'']) \<or> ''--project-dir'' \<in> set (butlast [''-p'', ''/p'', ''build'']))
   \<and> (snd (resolveGradleWrapperExecutable wrapperTree [''-p'', ''/p'', ''build'']) = None
        \<or> snd (findGradleExec wrapperTree) = None)
   \<and> (\<exists>c. FindGradle readPlain wrapperTree [''-p'', ''/p'', ''build''] = Command c
          \<and> explicitProjectDir c = ''/p'' \<and> executable c = ''/p/gradlew''
          \<and> buildFile c = [] \<and> rootBuildFile c = [] \<and> settingsFile c = []
          \<and> explicitBuildFile c = [] \<and> explicitSettingsFile c = [])"
proof -
  let ?a = "[''-p'', ''/p'', ''build'']"
  have f: "''-p'' \<in> set (butlast ?a) \<or> ''--project-dir'' \<in> set (butlast ?a)" by simp
  have e: "snd (resolveGradleWrapperExecutable wrapperTree ?a) = None \<or> snd (findGradleExec wrapperTree) = None"
    by (simp add: wrapperTree_def treeContext_def walk_simps path_defs find_defs Let_def)
  have d: "findExplicitProjectDir wrapperTree ?a = (True, ''/p'')"
    by (simp add: wrapperTree_def treeContext_def path_defs find_defs Let_def)
  have w: "findGradleWrapperExec wrapperTree (absPath (GetWorkingDir wrapperTree) ''/p'') = (''/p/gradlew'', None)"
    by (simp add: wrapperTree_def treeContext_def walk_simps path_defs find_defs Let_def)
  from explicit_project_dir_command [OF f e, of readPlain]
  obtain c j where c: "FindGradle readPlain wrapperTree ?a = Command c"
    "Suc j < length ?a" "?a ! j = ''-p'' \<or> ?a ! j = ''--project-dir''"
    "explicitProjectDir c = Abs (GetWorkingDir wrapperTree) (?a ! Suc j)"
    "buildFile c = []" "rootBuildFile c = []" "settingsFile c = []"
    "explicitBuildFile c = []" "explicitSettingsFile c = []"
    "executable c =
       (if snd (findGradleWrapperExec wrapperTree (absPath (GetWorkingDir wrapperTree) (explicitProjectDir c))) = None
        then fst (findGradleWrapperExec wrapperTree (absPath (GetWorkingDir wrapperTree) (explicitProjectDir c)))
        else fst (findGradleExec wrapperTree))"
    by blast
  from c(2,3) have "j = 0" by (cases j) (auto simp: less_Suc_eq nth_Cons')
  with c(4) have p: "explicitProjectDir c = ''/p''"
    by (simp add: wrapperTree_def treeContext_def path_defs)
  with c(10) w have "executable c = ''/p/gradlew''" by simp
  with f e c p show ?thesis by blast
qed


text \<open>
  Claim C7. For every argument list with \<^verbatim>\<open>-b\<close> or \<^verbatim>\<open>--build-file\<close> and a value,
  and no project directory flag, the command has \<open>explicitBuildFile\<close> equal to the
  absolute path of a value so given and empty \<open>buildFile\<close> and \<open>rootBuildFile\<close>; with
  no explicit settings file, it carries the settings file discovered from the working
  directory.
\<close>

theorem explicit_build_file_command:
  assumes nop: "''-p'' \<notin> set (butlast argv) \<and> ''--project-dir'' \<notin> set (butlast argv)"
    and flag: "''-b'' \<in> set (butlast argv) \<or> ''--build-file'' \<in> set (butlast argv)"
    and exe: "snd (resolveGradleWrapperExecutable ctx argv) = None \<or> snd (findGradleExec ctx) = None"
  shows "\<exists>c j. FindGradle ReadConfig ctx argv = Command c
           \<and> Suc j < length argv \<and> (argv ! j = ''-b'' \<or> argv ! j = ''--build-file'')
           \<and> explicitBuildFile c = Abs (GetWorkingDir ctx) (argv ! Suc j)
           \<and> buildFile c = [] \<and> rootBuildFile c = [] \<and> explicitProjectDir c = []
           \<and> (if fst (findExplicitGradleSettingsFile ctx argv)
               then explicitSettingsFile c = snd (findExplicitGradleSettingsFile ctx argv)
                    \<and> settingsFile c = []
               else explicitSettingsFile c = []
                    \<and> settingsFile c = fst (findGradleSettingsFile ctx (GetWorkingDir ctx)))"
proof -
  from nop have p: "findExplicitProjectDir ctx argv = (False, [])"
    unfolding findExplicitProjectDir_def
    by (intro findExplicit_absent) (auto simp: in_butlast_iff)
  from flag obtain i where "Suc i < length argv" "argv ! i = ''-b'' \<or> argv ! i = ''--build-file''"
    by (auto simp: in_butlast_iff)
  from findExplicit_present[OF this, of ctx] obtain j where
    j: "Suc j < length argv" "argv ! j = ''-b'' \<or> argv ! j = ''--build-file''"
    and b: "findExplicitGradleBuildFile ctx argv = (True, Abs (GetWorkingDir ctx) (argv ! Suc j))"
    by (auto simp: findExplicitGradleBuildFile_def)
  show ?thesis
    using exe j p b
    by (auto simp: FindGradle_def gradleCommandFor_def Let_def)
qed

theorem explicit_build_file_command_witness:
  "(''-p'' \<notin> set (butlast [''-b'', ''explicit.gradle'']) \<and> ''--project-dir'' \<notin> set (butlast [''-b'', ''explicit.gradle'']))
   \<and> (''-b'' \<in> set (butlast [''-b'', ''explicit.gradle'']) \<or> ''--build-file'' \<in> set (butlast [''-b'', ''explicit.gradle'']))
   \<and> (snd (resolveGradleWrapperExecutable explicitTree [''-b'', ''explicit.gradle'']) = None
        \<or> snd (findGradleExec explicitTree) = None)
   \<and> (\<exists>c. FindGradle readPlain explicitTree [''-b'', ''explicit.gradle''] = Command c
          \<and> explicitBuildFile c = ''/p/child/explicit.gradle''
          \<and> buildFile c = [] \<and> rootBuildFile c = [] \<and> explicitProjectDir c = []
          \<and> explicitSettingsFile c = [] \<and> settingsFile c = ''/p/settings.gradle'')"
proof -
  let ?a = "[''-b'', ''explicit.gradle'']"
  have n: "''-p'' \<notin> set (butlast ?a) \<and> ''--project-dir'' \<notin> set (butlast ?a)" by simp
  have f: "''-b'' \<in> set (butlast ?a) \<or> ''--build-file'' \<in> set (butlast ?a)" by simp
  have e: "snd (resolveGradleWrapperExecutable explicitTree ?a) = None \<or> snd (findGradleExec explicitTree) = None"
    by (simp add: explicitTree_def treeContext_def walk_simps path_defs find_defs Let_def)
  have s: "\<not> fst (findExplicitGradleSettingsFile explicitTree ?a)"
    by (simp add: find_defs Let_def)
  have d: "findGradleSettingsFile explicitTree (GetWorkingDir explicitTree) = (''/p/settings.gradle'', None)"
    by (simp add: explicitTree_def treeContext_def walk_simps path_defs find_defs Let_def)
  from explicit_build_file_command [OF n f e, of readPlain]
  obtain c j where c: "FindGradle readPlain explicitTree ?a = Command c"
    "Suc j < length ?a" 
    "explicitBuildFile c = Abs (GetWorkingDir explicitTree) (?a ! Suc j)"
    "buildFile c = []" "rootBuildFile c = []" "explicitProjectDir c = []"
    "(if fst (findExplicitGradleSettingsFile explicitTree ?a)
               then explicitSettingsFile c = snd (findExplicitGradleSettingsFile explicitTree ?a)
                    \<and> settingsFile c = []
               else explicitSettingsFile c = []
                    \<and> settingsFile c = fst (findGradleSettingsFile explicitTree (GetWorkingDir explicitTree)))"
    by blast
  from c(2) have "j = 0" by simp
  with c(3) have p: "explicitBuildFile c = ''/p/child/explicit.gradle''"
    by (simp add: explicitTree_def treeContext_def path_defs)
  from c(7) s d have "explicitSettingsFile c = [] \<and> settingsFile c = ''/p/settings.gradle''" by simp
  with n f e c p show ?thesis by blast
qed

section \<open>What Execute hands to the tool\<close>

text \<open>
  Claim C3, as amended. Only the meta-flags \<^verbatim>\<open>-gn\<close>, \<^verbatim>\<open>-gd\<close> and \<^verbatim>\<open>-gr\<close> are
  removed before the rewriter runs: its input is the command's argument list without
  these three tokens, every other token in place and in order. The tool-selection flags
  the user typed are among them.
\<close>

theorem rewriter_input:
  "oargs (doConfigureGradle c) = filter (\<lambda>a. a \<noteq> ''-gn'' \<and> a \<noteq> ''-gd'' \<and> a \<noteq> ''-gr'') (args c)
   \<and> rargs (doConfigureGradle c)
       = replaceGradleTasks (config (command (doConfigureGradle c))) (oargs (doConfigureGradle c))"
  by (simp add: doConfigureGradle_def GrabFlag_def Let_def split: prod.splits)

text \<open>
  The claim as stated fails: with \<^verbatim>\<open>-b explicit.gradle -gn build\<close> and a table that
  has an alias for \<^verbatim>\<open>-b\<close>, the rewriter receives \<^verbatim>\<open>-b\<close> and its value, and
  replaces the flag.
\<close>

theorem rewriter_sees_build_flag:
  "(case FindGradle readAlias explicitTree [''-b'', ''explicit.gradle'', ''-gn'', ''build''] of
      Command c \<Rightarrow>
        oargs (doConfigureGradle c) = [''-b'', ''explicit.gradle'', ''build'']
        \<and> rargs (doConfigureGradle c) = [''--build-file'', ''explicit.gradle'', ''build'']
    | _ \<Rightarrow> False)"
  by (simp add: FindGradle_def gradleCommandFor_def explicitTree_def treeContext_def walk_simps path_defs find_defs Let_def
      doConfigureGradle_def GrabFlag_def findFlag_def replaceGradleTasks_def replaceArgs_def
      readAlias_def aliasConfig_def setQuiet_def setDebug_def setReplace_def selectionFlags_def
      buildFileChoice_def settingsFileChoice_def resolveGradleRootDir_def FileExistsStr_def)







section \<open>Nearest and root build file\<close>

text \<open>
  Every candidate of the root search is a candidate of the nearest search, and the
  root search looks at a subset of the directories the nearest search looks at: where
  the root search finds a file, the nearest search finds one too.
\<close>

lemma firstExisting_root_build:
  "firstExisting ctx dir gradleRootFiles = Some f \<Longrightarrow>
     firstExisting ctx dir (gradleBuildFiles dir) = Some f"
  by (auto simp: gradleRootFiles_def gradleBuildFiles_def split: if_splits)

lemma root_found_build_found_at:
  "snd (findGradleRootFile ctx dir sf) = None \<Longrightarrow> snd (findGradleBuildFile ctx dir) = None"
proof (induction ctx dir sf rule: findGradleRootFile.induct)
  case (1 ctx dir sf)
  show ?case
  proof (cases "parent dir = dir")
    case True
    with "1.prems" show ?thesis by (simp add: findGradleRootFile.simps)
  next
    case False
    show ?thesis
    proof (cases "firstExisting ctx dir gradleRootFiles")
      case (Some f)
      then have "firstExisting ctx dir (gradleBuildFiles dir) = Some f"
        by (rule firstExisting_root_build)
      with False show ?thesis by (simp add: findGradleBuildFile.simps)
    next
      case None
      with False "1.prems"
      have stop: "\<not> (sf \<noteq> [] \<and> length (render (parent dir)) \<le> length (Dir sf))"
        and rec: "snd (findGradleRootFile ctx (parent dir) sf) = None"
        by (auto simp: findGradleRootFile.simps[of ctx dir sf] split: if_splits)
      from "1.IH"[OF False None stop rec]
      have "snd (findGradleBuildFile ctx (parent dir)) = None" .
      with False show ?thesis
        by (simp add: findGradleBuildFile.simps[of ctx dir] split: option.splits)
    qed
  qed
qed

lemma build_found_step:
  "parent dir \<noteq> dir \<Longrightarrow> snd (findGradleBuildFile ctx (parent dir)) = None \<Longrightarrow>
     snd (findGradleBuildFile ctx dir) = None"
  by (simp add: findGradleBuildFile.simps[of ctx dir] split: option.splits)

lemma root_found_build_found:
  assumes "snd (findGradleRootFile ctx (parent dir) sf) = None"
  shows "snd (findGradleBuildFile ctx dir) = None"
proof (cases "parent dir = dir")
  case True
  with assms root_found_build_found_at show ?thesis by metis
next
  case False
  show ?thesis by (rule build_found_step[OF False root_found_build_found_at[OF assms]])
qed

lemma maven_root_found_build_found_at:
  "snd (findMavenRootFile ctx dir) = None \<Longrightarrow> snd (findMavenBuildFile ctx dir) = None"
  by (induction ctx dir rule: findMavenRootFile.induct)
     (subst findMavenBuildFile.simps, subst (asm) (2) findMavenRootFile.simps, auto split: if_splits)

lemma maven_root_found_build_found:
  assumes "snd (findMavenRootFile ctx (parent dir)) = None"
  shows "snd (findMavenBuildFile ctx dir) = None"
proof (cases "parent dir = dir")
  case True
  with assms maven_root_found_build_found_at show ?thesis by metis
next
  case False
  with assms maven_root_found_build_found_at[of ctx "parent dir"] show ?thesis
    by (simp add: findMavenBuildFile.simps[of ctx dir])
qed

text \<open>The resolvers, seen through the part that follows the choice of executable.\<close>

lemma gradleCommandFor_root_iff:
  assumes "snd root = None \<Longrightarrow> snd build = None"
    and "snd root = None \<longleftrightarrow> fst root \<noteq> []"
    and "snd build = None \<longleftrightarrow> fst build \<noteq> []"
    and "gradleCommandFor ctx cfg exe argv pd eb es st build root = Command c"
  shows "rootBuildFile c \<noteq> [] \<longleftrightarrow> buildFile c \<noteq> []"
  using assms by (auto simp: gradleCommandFor_def Let_def split: if_splits)

lemma gradleCommandFor_fallback:
  assumes "\<not> fst pd" "\<not> fst eb" "snd root \<noteq> None" "snd build = None"
  shows "\<exists>c. gradleCommandFor ctx cfg exe argv pd eb es st build root = Command c
           \<and> rootBuildFile c = fst build \<and> buildFile c = fst build"
  using assms by (auto simp: gradleCommandFor_def Let_def)

lemma FindGradle_cases:
  "FindGradle rc ctx argv = Command c \<Longrightarrow>
     \<exists>cfg exe. gradleCommandFor ctx cfg exe argv (findExplicitProjectDir ctx argv)
        (findExplicitGradleBuildFile ctx argv) (findExplicitGradleSettingsFile ctx argv)
        (findGradleSettingsFile ctx (GetWorkingDir ctx)) (findGradleBuildFile ctx (GetWorkingDir ctx))
        (findGradleRootFile ctx (parent (GetWorkingDir ctx))
           (if fst (findExplicitGradleBuildFile ctx argv) then snd (findExplicitGradleBuildFile ctx argv)
            else fst (findGradleSettingsFile ctx (GetWorkingDir ctx)))) = Command c"
  by (auto simp: FindGradle_def Let_def split: if_splits)

lemma FindGradle_found:
  "snd (resolveGradleWrapperExecutable ctx argv) = None \<or> snd (findGradleExec ctx) = None \<Longrightarrow>
     \<exists>cfg exe. FindGradle rc ctx argv =
        gradleCommandFor ctx cfg exe argv (findExplicitProjectDir ctx argv)
        (findExplicitGradleBuildFile ctx argv) (findExplicitGradleSettingsFile ctx argv)
        (findGradleSettingsFile ctx (GetWorkingDir ctx)) (findGradleBuildFile ctx (GetWorkingDir ctx))
        (findGradleRootFile ctx (parent (GetWorkingDir ctx))
           (if fst (findExplicitGradleBuildFile ctx argv) then snd (findExplicitGradleBuildFile ctx argv)
            else fst (findGradleSettingsFile ctx (GetWorkingDir ctx))))"
  unfolding FindGradle_def Let_def by (cases "snd (resolveGradleWrapperExecutable ctx argv) = None") auto

lemma FindMaven_found:
  "snd (findMavenWrapperExec ctx (GetWorkingDir ctx)) = None \<or> snd (findMavenExec ctx) = None \<Longrightarrow>
     \<exists>exe. FindMaven ctx argv = mavenCommandFor ctx exe argv (findExplicitMavenBuildFile ctx argv)"
  unfolding FindMaven_def Let_def by (cases "snd (findMavenWrapperExec ctx (GetWorkingDir ctx)) = None") auto

lemma FindMaven_cases:
  "FindMaven ctx argv = Command m \<Longrightarrow>
     \<exists>exe. mavenCommandFor ctx exe argv (findExplicitMavenBuildFile ctx argv) = Command m"
  unfolding FindMaven_def Let_def by (auto split: if_splits)

lemma mavenCommandFor_fallback:
  assumes "\<not> fst eb" "snd (findMavenRootFile ctx (parent (GetWorkingDir ctx))) \<noteq> None"
    "snd (findMavenBuildFile ctx (GetWorkingDir ctx)) = None"
  shows "\<exists>m. mavenCommandFor ctx exe argv eb = Command m
           \<and> mvn_rootBuildFile m = fst (findMavenBuildFile ctx (GetWorkingDir ctx))
           \<and> mvn_buildFile m = fst (findMavenBuildFile ctx (GetWorkingDir ctx))"
  using assms by (simp add: mavenCommandFor_def Let_def)

lemma mavenCommandFor_root_iff:
  assumes "mavenCommandFor ctx exe argv eb = Command m"
  shows "mvn_rootBuildFile m \<noteq> [] \<longleftrightarrow> mvn_buildFile m \<noteq> []"
proof -
  let ?r = "findMavenRootFile ctx (parent (GetWorkingDir ctx))"
  let ?b = "findMavenBuildFile ctx (GetWorkingDir ctx)"
  have 1: "snd ?r = None \<Longrightarrow> snd ?b = None" by (rule maven_root_found_build_found)
  have 2: "snd ?r = None \<longleftrightarrow> fst ?r \<noteq> []" by (rule findMavenRootFile_found)
  have 3: "snd ?b = None \<longleftrightarrow> fst ?b \<noteq> []" by (rule findMavenBuildFile_found)
  show ?thesis
  proof (cases "fst eb")
    case True
    with assms show ?thesis by (auto simp: mavenCommandFor_def Let_def)
  next
    case False
    with assms have b: "snd ?b = None"
      and m: "mvn_rootBuildFile m = (if snd ?r \<noteq> None then fst ?b else fst ?r)" "mvn_buildFile m = fst ?b"
      by (auto simp: mavenCommandFor_def Let_def split: if_splits)
    with 1 2 3 show ?thesis by auto
  qed
qed

text \<open>
  Claim C10. In discovery mode, when the root search fails and the nearest search
  succeeds, the command's \<open>rootBuildFile\<close> is the nearest build file. Every command a
  resolver returns has a non-empty \<open>rootBuildFile\<close> exactly when it has a non-empty
  \<open>buildFile\<close>. Both hold for Gradle and for Maven.
\<close>

theorem root_build_file_fallback:
  "(\<not> fst (findExplicitProjectDir ctx argv) \<and> \<not> fst (findExplicitGradleBuildFile ctx argv)
      \<and> (snd (resolveGradleWrapperExecutable ctx argv) = None \<or> snd (findGradleExec ctx) = None)
      \<and> snd (findGradleRootFile ctx (parent (GetWorkingDir ctx))
                (fst (findGradleSettingsFile ctx (GetWorkingDir ctx)))) \<noteq> None
      \<and> snd (findGradleBuildFile ctx (GetWorkingDir ctx)) = None
      \<longrightarrow> (\<exists>c. FindGradle ReadConfig ctx argv = Command c
             \<and> rootBuildFile c = fst (findGradleBuildFile ctx (GetWorkingDir ctx))
             \<and> buildFile c = fst (findGradleBuildFile ctx (GetWorkingDir ctx))))
   \<and> (\<forall>c. FindGradle ReadConfig ctx argv = Command c
          \<longrightarrow> (rootBuildFile c \<noteq> [] \<longleftrightarrow> buildFile c \<noteq> []))
   \<and> (\<not> fst (findExplicitMavenBuildFile ctx argv)
      \<and> (snd (findMavenWrapperExec ctx (GetWorkingDir ctx)) = None \<or> snd (findMavenExec ctx) = None)
      \<and> snd (findMavenRootFile ctx (parent (GetWorkingDir ctx))) \<noteq> None
      \<and> snd (findMavenBuildFile ctx (GetWorkingDir ctx)) = None
      \<longrightarrow> (\<exists>m. FindMaven ctx argv = Command m
             \<and> mvn_rootBuildFile m = fst (findMavenBuildFile ctx (GetWorkingDir ctx))
             \<and> mvn_buildFile m = fst (findMavenBuildFile ctx (GetWorkingDir ctx))))
   \<and> (\<forall>m. FindMaven ctx argv = Command m
          \<longrightarrow> (mvn_rootBuildFile m \<noteq> [] \<longleftrightarrow> mvn_buildFile m \<noteq> []))"
proof (intro conjI impI allI)
  assume a: "\<not> fst (findExplicitProjectDir ctx argv) \<and> \<not> fst (findExplicitGradleBuildFile ctx argv)
      \<and> (snd (resolveGradleWrapperExecutable ctx argv) = None \<or> snd (findGradleExec ctx) = None)
      \<and> snd (findGradleRootFile ctx (parent (GetWorkingDir ctx))
                (fst (findGradleSettingsFile ctx (GetWorkingDir ctx)))) \<noteq> None
      \<and> snd (findGradleBuildFile ctx (GetWorkingDir ctx)) = None"
  then obtain cfg exe where "FindGradle ReadConfig ctx argv =
        gradleCommandFor ctx cfg exe argv (findExplicitProjectDir ctx argv)
        (findExplicitGradleBuildFile ctx argv) (findExplicitGradleSettingsFile ctx argv)
        (findGradleSettingsFile ctx (GetWorkingDir ctx)) (findGradleBuildFile ctx (GetWorkingDir ctx))
        (findGradleRootFile ctx (parent (GetWorkingDir ctx))
           (fst (findGradleSettingsFile ctx (GetWorkingDir ctx))))"
    using FindGradle_found[of ctx argv ReadConfig] by auto
  moreover from a have "\<exists>c. gradleCommandFor ctx cfg exe argv (findExplicitProjectDir ctx argv)
        (findExplicitGradleBuildFile ctx argv) (findExplicitGradleSettingsFile ctx argv)
        (findGradleSettingsFile ctx (GetWorkingDir ctx)) (findGradleBuildFile ctx (GetWorkingDir ctx))
        (findGradleRootFile ctx (parent (GetWorkingDir ctx))
           (fst (findGradleSettingsFile ctx (GetWorkingDir ctx)))) = Command c
        \<and> rootBuildFile c = fst (findGradleBuildFile ctx (GetWorkingDir ctx))
        \<and> buildFile c = fst (findGradleBuildFile ctx (GetWorkingDir ctx))"
    by (intro gradleCommandFor_fallback) simp_all
  ultimately show "\<exists>c. FindGradle ReadConfig ctx argv = Command c
             \<and> rootBuildFile c = fst (findGradleBuildFile ctx (GetWorkingDir ctx))
             \<and> buildFile c = fst (findGradleBuildFile ctx (GetWorkingDir ctx))"
    by simp
next
  fix c assume "FindGradle ReadConfig ctx argv = Command c"
  from FindGradle_cases[OF this] obtain cfg exe sf where
    g: "gradleCommandFor ctx cfg exe argv (findExplicitProjectDir ctx argv)
        (findExplicitGradleBuildFile ctx argv) (findExplicitGradleSettingsFile ctx argv)
        (findGradleSettingsFile ctx (GetWorkingDir ctx)) (findGradleBuildFile ctx (GetWorkingDir ctx))
        (findGradleRootFile ctx (parent (GetWorkingDir ctx)) sf) = Command c"
    by blast
  show "rootBuildFile c \<noteq> [] \<longleftrightarrow> buildFile c \<noteq> []"
    by (rule gradleCommandFor_root_iff[OF _ _ _ g])
       (simp_all add: root_found_build_found findGradleRootFile_found findGradleBuildFile_found)
next
  assume a: "\<not> fst (findExplicitMavenBuildFile ctx argv)
      \<and> (snd (findMavenWrapperExec ctx (GetWorkingDir ctx)) = None \<or> snd (findMavenExec ctx) = None)
      \<and> snd (findMavenRootFile ctx (parent (GetWorkingDir ctx))) \<noteq> None
      \<and> snd (findMavenBuildFile ctx (GetWorkingDir ctx)) = None"
  then obtain exe where
    "FindMaven ctx argv = mavenCommandFor ctx exe argv (findExplicitMavenBuildFile ctx argv)"
    using FindMaven_found[of ctx argv] by auto
  with a mavenCommandFor_fallback[of "findExplicitMavenBuildFile ctx argv" ctx exe argv]
  show "\<exists>m. FindMaven ctx argv = Command m
             \<and> mvn_rootBuildFile m = fst (findMavenBuildFile ctx (GetWorkingDir ctx))
             \<and> mvn_buildFile m = fst (findMavenBuildFile ctx (GetWorkingDir ctx))"
    by simp
next
  fix m assume "FindMaven ctx argv = Command m"
  from FindMaven_cases[OF this] obtain exe where
    "mavenCommandFor ctx exe argv (findExplicitMavenBuildFile ctx argv) = Command m" by blast
  then show "mvn_rootBuildFile m \<noteq> [] \<longleftrightarrow> mvn_buildFile m \<noteq> []"
    by (rule mavenCommandFor_root_iff)
qed


theorem root_build_file_fallback_witness:
  "(\<not> fst (findExplicitProjectDir singleTree []) \<and> \<not> fst (findExplicitGradleBuildFile singleTree [])
      \<and> (snd (resolveGradleWrapperExecutable singleTree []) = None \<or> snd (findGradleExec singleTree) = None)
      \<and> snd (findGradleRootFile singleTree (parent (GetWorkingDir singleTree))
                (fst (findGradleSettingsFile singleTree (GetWorkingDir singleTree)))) \<noteq> None
      \<and> snd (findGradleBuildFile singleTree (GetWorkingDir singleTree)) = None)
   \<and> (\<exists>c. FindGradle readPlain singleTree [] = Command c
          \<and> rootBuildFile c = ''/p/build.gradle'' \<and> buildFile c = ''/p/build.gradle'')
   \<and> (\<not> fst (findExplicitMavenBuildFile singleTree [])
      \<and> (snd (findMavenWrapperExec singleTree (GetWorkingDir singleTree)) = None
           \<or> snd (findMavenExec singleTree) = None)
      \<and> snd (findMavenRootFile singleTree (parent (GetWorkingDir singleTree))) \<noteq> None
      \<and> snd (findMavenBuildFile singleTree (GetWorkingDir singleTree)) = None)
   \<and> (\<exists>m. FindMaven singleTree [] = Command m
          \<and> mvn_rootBuildFile m = ''/p/pom.xml'' \<and> mvn_buildFile m = ''/p/pom.xml'')"
proof -
  have g: "\<not> fst (findExplicitProjectDir singleTree []) \<and> \<not> fst (findExplicitGradleBuildFile singleTree [])
      \<and> (snd (resolveGradleWrapperExecutable singleTree []) = None \<or> snd (findGradleExec singleTree) = None)
      \<and> snd (findGradleRootFile singleTree (parent (GetWorkingDir singleTree))
                (fst (findGradleSettingsFile singleTree (GetWorkingDir singleTree)))) \<noteq> None
      \<and> snd (findGradleBuildFile singleTree (GetWorkingDir singleTree)) = None"
    by (simp add: singleTree_def treeContext_def walk_simps path_defs find_defs Let_def)
  have m: "\<not> fst (findExplicitMavenBuildFile singleTree [])
      \<and> (snd (findMavenWrapperExec singleTree (GetWorkingDir singleTree)) = None
           \<or> snd (findMavenExec singleTree) = None)
      \<and> snd (findMavenRootFile singleTree (parent (GetWorkingDir singleTree))) \<noteq> None
      \<and> snd (findMavenBuildFile singleTree (GetWorkingDir singleTree)) = None"
    by (simp add: singleTree_def treeContext_def walk_simps path_defs find_defs Let_def)
  have b: "fst (findGradleBuildFile singleTree (GetWorkingDir singleTree)) = ''/p/build.gradle''"
    by (simp add: singleTree_def treeContext_def walk_simps path_defs find_defs Let_def)
  have p: "fst (findMavenBuildFile singleTree (GetWorkingDir singleTree)) = ''/p/pom.xml''"
    by (simp add: singleTree_def treeContext_def walk_simps path_defs find_defs Let_def)
  from root_build_file_fallback [of singleTree "[]" readPlain] g m b p
  show ?thesis by simp
qed


section \<open>The root search\<close>

lemma take_parent: "k \<le> length (parent dir) \<Longrightarrow> take k (parent dir) = take k dir"
  by (auto simp: parent_def butlast_conv_take min_def split: if_splits)




text \<open>
  The earlier revision has the tie-break, but only for the working directory: where the
  chain goes on, its fall-through to the nearest search returns the second file of the
  chain, not the topmost.
\<close>

lemma earlier_root_search_not_topmost:
  "findGradleRootFile_earlier fullChainTree (GetWorkingDir fullChainTree)
     = (''/a/b/build.gradle'', None)
   \<and> FileExists fullChainTree (Join (parent [''a'', ''b'']) ''build.gradle'')"
  by (simp add: findGradleRootFile_earlier_def fullChainTree_def treeContext_def walk_simps
      path_defs find_defs)

text \<open>
  The boundary of the root search is checked after the candidates of the directory the
  search starts in, and only for the directories above it. A file found above the
  start lies in a directory whose path is longer than the path of the settings file's
  directory.
\<close>

lemma findGradleRootFile_boundary:
  "findGradleRootFile ctx dir sf = (f, None) \<Longrightarrow> sf \<noteq> [] \<Longrightarrow>
     firstExisting ctx dir gradleRootFiles = None \<Longrightarrow>
     \<exists>k < length dir. firstExisting ctx (take k dir) gradleRootFiles = Some f
        \<and> length (Dir sf) < length (render (take k dir))"
proof (induction ctx dir sf rule: findGradleRootFile.induct)
  case (1 ctx dir sf)
  from "1.prems" have ne: "parent dir \<noteq> dir"
    by (auto simp: findGradleRootFile.simps[of ctx dir sf] split: if_splits)
  then have dne: "dir \<noteq> []" by (auto simp: parent_def)
  have len: "length (parent dir) = length dir - 1" by (simp add: parent_def)
  from ne "1.prems"
  have stop: "\<not> (sf \<noteq> [] \<and> length (render (parent dir)) \<le> length (Dir sf))"
    and rec: "findGradleRootFile ctx (parent dir) sf = (f, None)"
    by (auto simp: findGradleRootFile.simps[of ctx dir sf] split: if_splits)
  from stop "1.prems" have long: "length (Dir sf) < length (render (parent dir))" by simp
  show ?case
  proof (cases "firstExisting ctx (parent dir) gradleRootFiles")
    case (Some g)
    from rec have pne: "parent (parent dir) \<noteq> parent dir"
      by (auto simp: findGradleRootFile.simps[of ctx "parent dir" sf] split: if_splits)
    with Some rec have "g = f"
      by (simp add: findGradleRootFile.simps[of ctx "parent dir" sf])
    with Some long dne len take_parent[of "length dir - 1" dir] show ?thesis
      by (intro exI[of _ "length dir - 1"]) (auto simp: parent_def butlast_conv_take)
  next
    case None
    from "1.IH"[OF ne "1.prems"(3) stop rec "1.prems"(2) None] obtain k where
      "k < length (parent dir)" "firstExisting ctx (take k (parent dir)) gradleRootFiles = Some f"
      "length (Dir sf) < length (render (take k (parent dir)))" by blast
    with len take_parent[of k dir] show ?thesis
      by (intro exI[of _ k]) auto
  qed
qed


text \<open>
  Claim C8 says that the root build file is never in a directory shallower than the
  directory of the settings file. The code does not keep to it, because the start
  directory itself is not checked: with settings and build file in the working directory
  \<^verbatim>\<open>/p/a\<close> and a build file in \<^verbatim>\<open>/p\<close>, the root build file is
  \<^verbatim>\<open>/p/build.gradle\<close>, outside the directory of the settings file, and it is what
  \<^verbatim>\<open>Execute\<close> passes with \<^verbatim>\<open>-b\<close>.
\<close>

theorem root_search_escapes_settings_dir:
  "(case FindGradle readPlain nestedTree [] of
      Command c \<Rightarrow>
        settingsFile c = ''/p/a/settings.gradle'' \<and> rootBuildFile c = ''/p/build.gradle''
        \<and> Dir (settingsFile c) = ''/p/a'' \<and> Dir (rootBuildFile c) = ''/p''
        \<and> snd (fst (Execute c)) = [''-b'', ''/p/build.gradle'', ''-c'', ''/p/a/settings.gradle'']
    | _ \<Rightarrow> False)"
  by (simp add: FindGradle_def gradleCommandFor_def nestedTree_def treeContext_def walk_simps
      path_defs find_defs Let_def resolveGradleRootDir_def FileExistsStr_def
      Execute_def doExecuteGradle_def doConfigureGradle_def GrabFlag_def findFlag_def
      replaceGradleTasks_def readPlain_def plainConfig_def setQuiet_def selectionFlags_def
      buildFileChoice_def settingsFileChoice_def)



section \<open>Root or nearest\<close>

text \<open>The searches where the file is in the first directory they look at.\<close>

lemma parent_snoc: "parent (par @ [child]) = par"
  by (simp add: parent_def)

lemma parent_neq: "par \<noteq> [] \<Longrightarrow> parent par \<noteq> par"
  by (cases par rule: rev_cases) (simp_all add: parent_def)

lemma findGradleBuildFile_here:
  "firstExisting ctx (par @ [child]) (gradleBuildFiles (par @ [child])) = Some n \<Longrightarrow>
     findGradleBuildFile ctx (par @ [child]) = (n, None)"
  by (simp add: findGradleBuildFile.simps[of ctx "par @ [child]"] parent_snoc)

lemma findGradleRootFile_here:
  "par \<noteq> [] \<Longrightarrow> firstExisting ctx par gradleRootFiles = Some r \<Longrightarrow>
     findGradleRootFile ctx par sf = (r, None)"
  by (simp add: findGradleRootFile.simps[of ctx par sf] parent_neq)

lemma findMavenBuildFile_here:
  "FileExists ctx (Join (par @ [child]) ''pom.xml'') \<Longrightarrow>
     findMavenBuildFile ctx (par @ [child]) = (render (Join (par @ [child]) ''pom.xml''), None)"
  by (simp add: findMavenBuildFile.simps[of ctx "par @ [child]"] parent_snoc)

lemma findMavenRootFile_here:
  "par \<noteq> [] \<Longrightarrow> FileExists ctx (Join par ''pom.xml'') \<Longrightarrow>
     findMavenRootFile ctx par = (render (Join par ''pom.xml''), None)"
  by (simp add: findMavenRootFile.simps[of ctx par] parent_neq)

lemma gradleCommandFor_discovered:
  assumes "pd = (False, [])" "eb = (False, [])" "build = (n, None)" "root = (r, None)"
  shows "\<exists>c. gradleCommandFor ctx cfg exe argv pd eb es st build root = Command c
           \<and> rootBuildFile c = r \<and> buildFile c = n \<and> args c = argv
           \<and> explicitProjectDir c = [] \<and> explicitBuildFile c = []"
  using assms by (simp add: gradleCommandFor_def Let_def)

lemma GrabFlag_fst: "fst (GrabFlag flag xs) = (flag \<in> set xs)"
  by (simp add: GrabFlag_def)

lemma doConfigureGradle_discovered:
  assumes "explicitProjectDir c = []" "explicitBuildFile c = []" "buildFile c \<noteq> []"
    "rootBuildFile c \<noteq> []"
  shows "take 2 (args (command (doConfigureGradle c)))
           = [''-b'', if ''-gn'' \<in> set (args c) then buildFile c else rootBuildFile c]"
    and "''-gd'' \<in> set (args c) \<Longrightarrow>
           println2 ''rootBuildFile        = '' (rootBuildFile c) \<in> set (printed (doConfigureGradle c))"
  using assms
  by (simp_all add: doConfigureGradle_def selectionFlags_def buildFileChoice_def
      settingsFileChoice_def GrabFlag_def findFlag_def debugGradle_def setDebug_def
      setReplace_def Let_def split: prod.splits)

lemma mavenConfigure_discovered:
  assumes "mvn_explicitBuildFile m = []" "mvn_buildFile m \<noteq> []" "mvn_rootBuildFile m \<noteq> []"
  shows "take 2 (mvn_final (mavenConfigure m))
           = [''-f'', if ''-gn'' \<in> set (mvn_args m) then mvn_buildFile m else mvn_rootBuildFile m]"
    and "''-gd'' \<in> set (mvn_args m) \<Longrightarrow>
           println2 ''rootBuildFile      = '' (mvn_rootBuildFile m) \<in> set (mvn_printed (mavenConfigure m))"
  using assms
  by (simp_all add: mavenConfigure_def GrabFlag_def Let_def split: prod.splits)


text \<open>
  Claim C4, as amended. Take a tree where the working directory has a build file and
  its parent, which is not the filesystem root, has a root candidate
  (\<^verbatim>\<open>build.gradle\<close> or \<^verbatim>\<open>build.gradle.kts\<close>; \<^verbatim>\<open>pom.xml\<close> for Maven), no explicit
  project directory or build file, and an executable to be found. The command has the
  parent's file as root and the working directory's as nearest; \<^verbatim>\<open>Execute\<close> passes the
  root with the tool-selection flag when \<^verbatim>\<open>-gn\<close> is absent and the nearest when it is
  present; and with \<^verbatim>\<open>-gd\<close> the dump it prints reports the root file in both cases.
\<close>

theorem root_preferred_nearest_on_request:
  "(GetWorkingDir ctx = par @ [child] \<and> par \<noteq> []
      \<and> firstExisting ctx par gradleRootFiles = Some r
      \<and> firstExisting ctx (par @ [child]) (gradleBuildFiles (par @ [child])) = Some n
      \<and> ''-p'' \<notin> set (butlast argv) \<and> ''--project-dir'' \<notin> set (butlast argv)
      \<and> ''-b'' \<notin> set (butlast argv) \<and> ''--build-file'' \<notin> set (butlast argv)
      \<and> (snd (resolveGradleWrapperExecutable ctx argv) = None \<or> snd (findGradleExec ctx) = None)
    \<longrightarrow> (\<exists>c. FindGradle ReadConfig ctx argv = Command c
           \<and> rootBuildFile c = r \<and> buildFile c = n
           \<and> take 2 (snd (fst (Execute c))) = [''-b'', if ''-gn'' \<in> set argv then n else r]
           \<and> (''-gd'' \<in> set argv
                \<longrightarrow> println2 ''rootBuildFile        = '' r \<in> set (snd (Execute c)))))
   \<and> (GetWorkingDir ctx = par @ [child] \<and> par \<noteq> []
      \<and> FileExists ctx (Join par ''pom.xml'')
      \<and> FileExists ctx (Join (par @ [child]) ''pom.xml'')
      \<and> ''-f'' \<notin> set (butlast argv) \<and> ''--file'' \<notin> set (butlast argv)
      \<and> (snd (findMavenWrapperExec ctx (GetWorkingDir ctx)) = None \<or> snd (findMavenExec ctx) = None)
    \<longrightarrow> (\<exists>m. FindMaven ctx argv = Command m
           \<and> mvn_rootBuildFile m = render (Join par ''pom.xml'')
           \<and> mvn_buildFile m = render (Join (par @ [child]) ''pom.xml'')
           \<and> take 2 (snd (fst (MavenExecute m)))
               = [''-f'', if ''-gn'' \<in> set argv then render (Join (par @ [child]) ''pom.xml'')
                          else render (Join par ''pom.xml'')]
           \<and> (''-gd'' \<in> set argv
                \<longrightarrow> println2 ''rootBuildFile      = '' (render (Join par ''pom.xml''))
                      \<in> set (snd (MavenExecute m)))))"
proof (intro conjI impI)
  assume a: "GetWorkingDir ctx = par @ [child] \<and> par \<noteq> []
      \<and> firstExisting ctx par gradleRootFiles = Some r
      \<and> firstExisting ctx (par @ [child]) (gradleBuildFiles (par @ [child])) = Some n
      \<and> ''-p'' \<notin> set (butlast argv) \<and> ''--project-dir'' \<notin> set (butlast argv)
      \<and> ''-b'' \<notin> set (butlast argv) \<and> ''--build-file'' \<notin> set (butlast argv)
      \<and> (snd (resolveGradleWrapperExecutable ctx argv) = None \<or> snd (findGradleExec ctx) = None)"
  then have pd: "findExplicitProjectDir ctx argv = (False, [])"
    unfolding findExplicitProjectDir_def
    by (intro findExplicit_absent) (auto simp: in_butlast_iff)
  from a have eb: "findExplicitGradleBuildFile ctx argv = (False, [])"
    unfolding findExplicitGradleBuildFile_def
    by (intro findExplicit_absent) (auto simp: in_butlast_iff)
  from a have build: "findGradleBuildFile ctx (GetWorkingDir ctx) = (n, None)"
    by (simp add: findGradleBuildFile_here)
  from a have root: "\<And>sf. findGradleRootFile ctx (parent (GetWorkingDir ctx)) sf = (r, None)"
    by (simp add: findGradleRootFile_here parent_snoc)
  from a have rne: "r \<noteq> []" and nne: "n \<noteq> []"
    by (auto dest: firstExisting_nonempty)
  from a obtain cfg exe where f: "FindGradle ReadConfig ctx argv =
        gradleCommandFor ctx cfg exe argv (findExplicitProjectDir ctx argv)
        (findExplicitGradleBuildFile ctx argv) (findExplicitGradleSettingsFile ctx argv)
        (findGradleSettingsFile ctx (GetWorkingDir ctx)) (findGradleBuildFile ctx (GetWorkingDir ctx))
        (findGradleRootFile ctx (parent (GetWorkingDir ctx))
           (if fst (findExplicitGradleBuildFile ctx argv) then snd (findExplicitGradleBuildFile ctx argv)
            else fst (findGradleSettingsFile ctx (GetWorkingDir ctx))))"
    using FindGradle_found[of ctx argv ReadConfig] by blast
  from gradleCommandFor_discovered[OF pd eb build root] f
  obtain c where c: "FindGradle ReadConfig ctx argv = Command c" "rootBuildFile c = r"
    "buildFile c = n" "args c = argv" "explicitProjectDir c = []" "explicitBuildFile c = []"
    by metis
  from doConfigureGradle_discovered[of c] c rne nne
  have "take 2 (snd (fst (Execute c))) = [''-b'', if ''-gn'' \<in> set argv then n else r]"
    and "''-gd'' \<in> set argv \<longrightarrow> println2 ''rootBuildFile        = '' r \<in> set (snd (Execute c))"
    by (simp_all add: Execute_def doExecuteGradle_def Let_def)
  with c show "\<exists>c. FindGradle ReadConfig ctx argv = Command c
           \<and> rootBuildFile c = r \<and> buildFile c = n
           \<and> take 2 (snd (fst (Execute c))) = [''-b'', if ''-gn'' \<in> set argv then n else r]
           \<and> (''-gd'' \<in> set argv
                \<longrightarrow> println2 ''rootBuildFile        = '' r \<in> set (snd (Execute c)))"
    by blast
next
  assume a: "GetWorkingDir ctx = par @ [child] \<and> par \<noteq> []
      \<and> FileExists ctx (Join par ''pom.xml'')
      \<and> FileExists ctx (Join (par @ [child]) ''pom.xml'')
      \<and> ''-f'' \<notin> set (butlast argv) \<and> ''--file'' \<notin> set (butlast argv)
      \<and> (snd (findMavenWrapperExec ctx (GetWorkingDir ctx)) = None \<or> snd (findMavenExec ctx) = None)"
  let ?r = "render (Join par ''pom.xml'')" and ?n = "render (Join (par @ [child]) ''pom.xml'')"
  from a have eb: "findExplicitMavenBuildFile ctx argv = (False, [])"
    unfolding findExplicitMavenBuildFile_def
    by (intro findExplicit_absent) (auto simp: in_butlast_iff)
  from a have build: "findMavenBuildFile ctx (GetWorkingDir ctx) = (?n, None)"
    by (simp add: findMavenBuildFile_here)
  from a have root: "findMavenRootFile ctx (parent (GetWorkingDir ctx)) = (?r, None)"
    by (simp add: findMavenRootFile_here parent_snoc)
  from a obtain exe where
    f: "FindMaven ctx argv = mavenCommandFor ctx exe argv (findExplicitMavenBuildFile ctx argv)"
    using FindMaven_found[of ctx argv] by blast
  define m where "m = \<lparr>mvn_context = ctx, mvn_executable = exe, mvn_args = argv,
      mvn_buildFile = ?n, mvn_explicitBuildFile = [], mvn_rootBuildFile = ?r\<rparr>"
  from f eb build root have c: "FindMaven ctx argv = Command m"
    by (simp add: mavenCommandFor_def m_def Let_def)
  have p: "mvn_explicitBuildFile m = []" "mvn_buildFile m = ?n" "mvn_rootBuildFile m = ?r"
    "mvn_args m = argv"
    by (simp_all add: m_def)
  from mavenConfigure_discovered[of m] p
  have "take 2 (snd (fst (MavenExecute m))) = [''-f'', if ''-gn'' \<in> set argv then ?n else ?r]"
    and "''-gd'' \<in> set argv \<longrightarrow> println2 ''rootBuildFile      = '' ?r \<in> set (snd (MavenExecute m))"
    by (simp_all add: MavenExecute_def Let_def render_nonempty)
  with c p show "\<exists>m. FindMaven ctx argv = Command m
           \<and> mvn_rootBuildFile m = ?r \<and> mvn_buildFile m = ?n
           \<and> take 2 (snd (fst (MavenExecute m))) = [''-f'', if ''-gn'' \<in> set argv then ?n else ?r]
           \<and> (''-gd'' \<in> set argv
                \<longrightarrow> println2 ''rootBuildFile      = '' ?r \<in> set (snd (MavenExecute m)))"
    by blast
qed


theorem root_preferred_nearest_on_request_witness:
  "(GetWorkingDir modulesTree = [''p''] @ [''child''] \<and> [''p''] \<noteq> []
      \<and> firstExisting modulesTree [''p''] gradleRootFiles = Some ''/p/build.gradle''
      \<and> firstExisting modulesTree ([''p''] @ [''child'']) (gradleBuildFiles ([''p''] @ [''child'']))
          = Some ''/p/child/child.gradle''
      \<and> ''-p'' \<notin> set (butlast [''-gn'', ''-gd'', ''build''])
      \<and> ''--project-dir'' \<notin> set (butlast [''-gn'', ''-gd'', ''build''])
      \<and> ''-b'' \<notin> set (butlast [''-gn'', ''-gd'', ''build''])
      \<and> ''--build-file'' \<notin> set (butlast [''-gn'', ''-gd'', ''build''])
      \<and> (snd (resolveGradleWrapperExecutable modulesTree [''-gn'', ''-gd'', ''build'']) = None
           \<or> snd (findGradleExec modulesTree) = None))
   \<and> (\<exists>c. FindGradle readPlain modulesTree [''-gn'', ''-gd'', ''build''] = Command c
          \<and> rootBuildFile c = ''/p/build.gradle'' \<and> buildFile c = ''/p/child/child.gradle''
          \<and> take 2 (snd (fst (Execute c))) = [''-b'', ''/p/child/child.gradle'']
          \<and> println2 ''rootBuildFile        = '' ''/p/build.gradle'' \<in> set (snd (Execute c)))
   \<and> (FileExists modulesTree (Join [''p''] ''pom.xml'')
      \<and> FileExists modulesTree (Join ([''p''] @ [''child'']) ''pom.xml'')
      \<and> ''-f'' \<notin> set (butlast [''-gn'', ''-gd'', ''build''])
      \<and> ''--file'' \<notin> set (butlast [''-gn'', ''-gd'', ''build''])
      \<and> (snd (findMavenWrapperExec modulesTree (GetWorkingDir modulesTree)) = None
           \<or> snd (findMavenExec modulesTree) = None))
   \<and> (\<exists>m. FindMaven modulesTree [''-gn'', ''-gd'', ''build''] = Command m
          \<and> mvn_rootBuildFile m = ''/p/pom.xml'' \<and> mvn_buildFile m = ''/p/child/pom.xml''
          \<and> take 2 (snd (fst (MavenExecute m))) = [''-f'', ''/p/child/pom.xml'']
          \<and> println2 ''rootBuildFile      = '' ''/p/pom.xml'' \<in> set (snd (MavenExecute m)))"
proof -
  let ?a = "[''-gn'', ''-gd'', ''build'']"
  have g: "GetWorkingDir modulesTree = [''p''] @ [''child''] \<and> [''p''] \<noteq> []
      \<and> firstExisting modulesTree [''p''] gradleRootFiles = Some ''/p/build.gradle''
      \<and> firstExisting modulesTree ([''p''] @ [''child'']) (gradleBuildFiles ([''p''] @ [''child'']))
          = Some ''/p/child/child.gradle''
      \<and> ''-p'' \<notin> set (butlast ?a) \<and> ''--project-dir'' \<notin> set (butlast ?a)
      \<and> ''-b'' \<notin> set (butlast ?a) \<and> ''--build-file'' \<notin> set (butlast ?a)
      \<and> (snd (resolveGradleWrapperExecutable modulesTree ?a) = None
           \<or> snd (findGradleExec modulesTree) = None)"
    by (simp add: modulesTree_def treeContext_def walk_simps path_defs find_defs Let_def)
  have m: "GetWorkingDir modulesTree = [''p''] @ [''child''] \<and> [''p''] \<noteq> []
      \<and> FileExists modulesTree (Join [''p''] ''pom.xml'')
      \<and> FileExists modulesTree (Join ([''p''] @ [''child'']) ''pom.xml'')
      \<and> ''-f'' \<notin> set (butlast ?a) \<and> ''--file'' \<notin> set (butlast ?a)
      \<and> (snd (findMavenWrapperExec modulesTree (GetWorkingDir modulesTree)) = None
           \<or> snd (findMavenExec modulesTree) = None)"
    by (simp add: modulesTree_def treeContext_def walk_simps path_defs find_defs Let_def)
  have r: "render (Join [''p''] ''pom.xml'') = ''/p/pom.xml''"
    "render (Join ([''p''] @ [''child'']) ''pom.xml'') = ''/p/child/pom.xml''"
    by (simp_all add: path_defs)
  have f: "''-gn'' \<in> set ?a" "''-gd'' \<in> set ?a" by simp_all
  from root_preferred_nearest_on_request
    [of modulesTree "[''p'']" "''child''" "''/p/build.gradle''" "''/p/child/child.gradle''" ?a readPlain]
    g m
  have "(\<exists>c. FindGradle readPlain modulesTree ?a = Command c
           \<and> rootBuildFile c = ''/p/build.gradle'' \<and> buildFile c = ''/p/child/child.gradle''
           \<and> take 2 (snd (fst (Execute c)))
               = [''-b'', if ''-gn'' \<in> set ?a then ''/p/child/child.gradle'' else ''/p/build.gradle'']
           \<and> (''-gd'' \<in> set ?a
                \<longrightarrow> println2 ''rootBuildFile        = '' ''/p/build.gradle'' \<in> set (snd (Execute c))))"
    and "(\<exists>m. FindMaven modulesTree ?a = Command m
           \<and> mvn_rootBuildFile m = render (Join [''p''] ''pom.xml'')
           \<and> mvn_buildFile m = render (Join ([''p''] @ [''child'']) ''pom.xml'')
           \<and> take 2 (snd (fst (MavenExecute m)))
               = [''-f'', if ''-gn'' \<in> set ?a then render (Join ([''p''] @ [''child'']) ''pom.xml'')
                          else render (Join [''p''] ''pom.xml'')]
           \<and> (''-gd'' \<in> set ?a
                \<longrightarrow> println2 ''rootBuildFile      = '' (render (Join [''p''] ''pom.xml''))
                      \<in> set (snd (MavenExecute m))))"
    by blast+
  with f r have
    G: "\<exists>c. FindGradle readPlain modulesTree ?a = Command c
          \<and> rootBuildFile c = ''/p/build.gradle'' \<and> buildFile c = ''/p/child/child.gradle''
          \<and> take 2 (snd (fst (Execute c))) = [''-b'', ''/p/child/child.gradle'']
          \<and> println2 ''rootBuildFile        = '' ''/p/build.gradle'' \<in> set (snd (Execute c))"
    and M: "\<exists>m. FindMaven modulesTree ?a = Command m
          \<and> mvn_rootBuildFile m = ''/p/pom.xml'' \<and> mvn_buildFile m = ''/p/child/pom.xml''
          \<and> take 2 (snd (fst (MavenExecute m))) = [''-f'', ''/p/child/pom.xml'']
          \<and> println2 ''rootBuildFile      = '' ''/p/pom.xml'' \<in> set (snd (MavenExecute m))"
    by simp_all
  from g m G M show ?thesis by (elim conjE) (intro conjI; assumption)
qed

text \<open>
  The claim as stated fails where the parent is the filesystem root: no search looks
  at the root directory, so with \<^verbatim>\<open>/a/build.gradle\<close> and \<^verbatim>\<open>/build.gradle\<close> and no
  \<^verbatim>\<open>-gn\<close>, the file of the working directory \<^verbatim>\<open>/a\<close> is passed.
\<close>

theorem root_directory_never_searched:
  "FileExists rootedTree (Join (GetWorkingDir rootedTree) ''build.gradle'')
   \<and> FileExists rootedTree (Join (parent (GetWorkingDir rootedTree)) ''build.gradle'')
   \<and> (case FindGradle readPlain rootedTree [] of
         Command c \<Rightarrow>
           rootBuildFile c = ''/a/build.gradle''
           \<and> snd (fst (Execute c)) = [''-b'', ''/a/build.gradle'']
       | _ \<Rightarrow> False)"
  by (simp add: FindGradle_def gradleCommandFor_def rootedTree_def treeContext_def walk_simps
      path_defs find_defs Let_def resolveGradleRootDir_def FileExistsStr_def
      Execute_def doExecuteGradle_def doConfigureGradle_def GrabFlag_def findFlag_def
      replaceGradleTasks_def readPlain_def plainConfig_def setQuiet_def selectionFlags_def
      buildFileChoice_def settingsFileChoice_def)


end
